theory Spec2Isabelle
  imports Main "HOL-Library.Word" "HOL-Library.AList"
begin

section \<open>JavaScript values\<close>

text \<open>
  \<^verbatim>\<open>TelemetryContext.ts\<close> is untyped at run time: a telemetry item, a context provider
  and a bucket of \<^verbatim>\<open>ext\<close> are JavaScript objects, a provider field may hold any
  value. Strings are sequences of UTF-16 code units; an object is the list of its own
  properties in insertion order (looked up by name, first entry first); an array is an
  object of kind \<open>ArrayObject\<close> whose elements are the properties named by their
  decimal index.
\<close>

type_synonym jschar = "16 word"
type_synonym jsstring = "jschar list"

definition js :: "string \<Rightarrow> jsstring" where
  "js s = map of_char s"

datatype objkind = PlainObject | ArrayObject

datatype jsval =
    Undefined
  | Null
  | Boolean bool
  | Number int
  | Str jsstring
  | Obj objkind "(jsstring \<times> jsval) list"

fun truthy :: "jsval \<Rightarrow> bool" where
  "truthy Undefined = False"
| "truthy Null = False"
| "truthy (Boolean b) = b"
| "truthy (Number n) = (n \<noteq> 0)"
| "truthy (Str s) = (s \<noteq> [])"
| "truthy (Obj k ps) = True"

fun isString :: "jsval \<Rightarrow> bool" where
  "isString (Str s) = True"
| "isString v = False"

fun isArray :: "jsval \<Rightarrow> bool" where
  "isArray (Obj k ps) = (k = ArrayObject)"
| "isArray v = False"

fun isUndefined :: "jsval \<Rightarrow> bool" where
  "isUndefined Undefined = True"
| "isUndefined v = False"

fun isNullOrUndefined :: "jsval \<Rightarrow> bool" where
  "isNullOrUndefined Undefined = True"
| "isNullOrUndefined Null = True"
| "isNullOrUndefined v = False"

text \<open>
  \<^verbatim>\<open>target[name]\<close>, \<^verbatim>\<open>target[name] = v\<close> and \<^verbatim>\<open>delete target[name]\<close> on own
  properties. Every name the program uses is a constant that no prototype defines, so
  reading a name an object does not own gives \<^verbatim>\<open>undefined\<close>, and so does reading it
  from a primitive. Spec 5 and 7: a write that cannot be made is omitted and never an
  error, so on a target that is not an object a write or a delete changes nothing.
  Numbers are the integers: the program only tests a number for truthiness and for being
  a string.
\<close>

fun get_prop :: "jsval \<Rightarrow> jsstring \<Rightarrow> jsval" where
  "get_prop (Obj k ps) name = (case map_of ps name of Some v \<Rightarrow> v | None \<Rightarrow> Undefined)"
| "get_prop v name = Undefined"

fun put_prop :: "jsval \<Rightarrow> jsstring \<Rightarrow> jsval \<Rightarrow> jsval" where
  "put_prop (Obj k ps) name v = Obj k (AList.update name v ps)"
| "put_prop t name v = t"

fun delete_prop :: "jsval \<Rightarrow> jsstring \<Rightarrow> jsval" where
  "delete_prop (Obj k ps) name = Obj k (AList.delete name ps)"
| "delete_prop t name = t"

fun is_obj :: "jsval \<Rightarrow> bool" where
  "is_obj (Obj k ps) = True"
| "is_obj v = False"

fun decimal :: "nat \<Rightarrow> jsstring" where
  "decimal n = (if n < 10 then [of_nat (48 + n)]
                else decimal (n div 10) @ [of_nat (48 + n mod 10)])"

definition js_array :: "jsval list \<Rightarrow> jsval" where
  "js_array xs = Obj ArrayObject (zip (map decimal [0..<length xs]) xs)"

text \<open>
  Modelled from the spec: \<^verbatim>\<open>objKeys\<close> of applicationinsights-core-js, which is not
  part of the sources. The spec speaks of the keys a bucket contains (4.5, "exist but
  contain zero keys"): the names of the own properties of a value.
\<close>

fun objKeys :: "jsval \<Rightarrow> jsstring list" where
  "objKeys (Obj k ps) = map fst ps"
| "objKeys (Str s) = map decimal [0..<length s]"
| "objKeys v = []"

section \<open>String helpers\<close>

text \<open>The white space of ECMAScript's \<^verbatim>\<open>String.prototype.trim\<close>.\<close>

definition isWhiteSpace :: "jschar \<Rightarrow> bool" where
  "isWhiteSpace c =
     (c = 0x09 \<or> c = 0x0A \<or> c = 0x0B \<or> c = 0x0C \<or> c = 0x0D \<or> c = 0x20 \<or> c = 0xA0
      \<or> c = 0x1680 \<or> (0x2000 \<le> c \<and> c \<le> 0x200A) \<or> c = 0x2028 \<or> c = 0x2029
      \<or> c = 0x202F \<or> c = 0x205F \<or> c = 0x3000 \<or> c = 0xFEFF)"

definition strTrim :: "jsstring \<Rightarrow> jsstring" where
  "strTrim s = rev (dropWhile isWhiteSpace (rev (dropWhile isWhiteSpace s)))"

definition strStartsWith :: "jsstring \<Rightarrow> jsstring \<Rightarrow> bool" where
  "strStartsWith v checkValue = (take (length checkValue) v = checkValue)"

definition strEndsWith :: "jsstring \<Rightarrow> jsstring \<Rightarrow> bool" where
  "strEndsWith v checkValue =
     (length checkValue \<le> length v \<and> drop (length v - length checkValue) v = checkValue)"

text \<open>\<^verbatim>\<open>String.prototype.indexOf\<close>: the first position of the needle, or \<open>-1\<close>.\<close>

fun indexOf :: "jsstring \<Rightarrow> jsstring \<Rightarrow> int" where
  "indexOf [] p = (if p = [] then 0 else - 1)"
| "indexOf (c # cs) p =
     (if take (length p) (c # cs) = p then 0
      else (let i = indexOf cs p in if i = - 1 then - 1 else i + 1))"

text \<open>
  \<^verbatim>\<open>String.prototype.substring(start, end)\<close>: both indices are clamped to the string and
  swapped when \<open>start > end\<close>.
\<close>

definition substring :: "jsstring \<Rightarrow> int \<Rightarrow> int \<Rightarrow> jsstring" where
  "substring s start end =
     (let n = int (length s);
          a = max 0 (min start n);
          b = max 0 (min end n);
          lo = min a b;
          hi = max a b
      in take (nat (hi - lo)) (drop (nat lo) s))"

definition substring_from :: "jsstring \<Rightarrow> int \<Rightarrow> jsstring" where
  "substring_from s start = substring s start (int (length s))"

section \<open>Trace parent\<close>

record ITraceParent =
  traceId :: jsstring
  spanId :: jsstring

definition isHexDigit :: "jschar \<Rightarrow> bool" where
  "isHexDigit c = ((0x30 \<le> c \<and> c \<le> 0x39) \<or> (0x61 \<le> c \<and> c \<le> 0x66))"

text \<open>
  Modelled from the spec: \<^verbatim>\<open>isValidTraceId\<close>, \<^verbatim>\<open>isValidSpanId\<close> and
  \<^verbatim>\<open>createTraceParent\<close> of applicationinsights-core-js, which are not part of the
  sources. Spec 4.1: the trace id must be exactly 32 hexadecimal characters and not
  all-zero, the span id exactly 16 hexadecimal characters and not all-zero; spec 8: the
  hexadecimal digits are \<^verbatim>\<open>[0-9a-f]\<close>, case-sensitive. Spec 3: a TraceParent is the
  pair of the two validated ids.
\<close>

definition isValid :: "jsstring \<Rightarrow> nat \<Rightarrow> bool" where
  "isValid v len = (length v = len \<and> v \<noteq> replicate len 0x30 \<and> list_all isHexDigit v)"

definition isValidTraceId :: "jsstring \<Rightarrow> bool" where
  "isValidTraceId v = isValid v 32"

definition isValidSpanId :: "jsstring \<Rightarrow> bool" where
  "isValidSpanId v = isValid v 16"

definition createTraceParent :: "jsstring \<Rightarrow> jsstring \<Rightarrow> ITraceParent" where
  "createTraceParent t s = \<lparr>traceId = t, spanId = s\<rparr>"

text \<open>
  \<^verbatim>\<open>_parseRequestId(value)\<close>; the result \<^verbatim>\<open>null\<close> is \<open>None\<close>. The parameter is
  declared a string, the body also accepts an array and any other value.
\<close>

definition parseRequestId :: "jsval \<Rightarrow> ITraceParent option" where
  "parseRequestId value0 =
     (if truthy value0 then
        (let value1 = (if isArray value0
                       then (let v0 = get_prop value0 (js ''0'') in if truthy v0 then v0 else Str [])
                       else value0)
         in case value1 of
              Str s \<Rightarrow>
                (if s \<noteq> [] then
                   (let v = strTrim s in
                    if strStartsWith v (js ''|'') then
                      (let idx = indexOf v (js ''.'') in
                       if idx \<noteq> - 1 then
                         (let traceId = substring v 1 idx;
                              spanId0 = substring_from v (idx + 1);
                              spanId = (if strEndsWith spanId0 (js ''.'')
                                        then substring spanId0 0 (int (length spanId0) - 1)
                                        else spanId0)
                          in if isValidTraceId traceId \<and> isValidSpanId spanId
                             then Some (createTraceParent traceId spanId)
                             else None)
                       else None)
                    else None)
                 else None)
            | _ \<Rightarrow> None)
      else None)"

text \<open>
  The legacy format as the spec writes it,
  \<^verbatim>\<open>^\|[0-9a-f]{32}\.[0-9a-f]{16}\.?$\<close>: a bar, 32 hexadecimal digits, a dot, 16
  hexadecimal digits and at most one more dot.
\<close>

definition legacy_format :: "jsstring \<Rightarrow> bool" where
  "legacy_format s =
     (take 1 s = js ''|''
      \<and> length (take 32 (drop 1 s)) = 32 \<and> list_all isHexDigit (take 32 (drop 1 s))
      \<and> take 1 (drop 33 s) = js ''.''
      \<and> length (take 16 (drop 34 s)) = 16 \<and> list_all isHexDigit (take 16 (drop 34 s))
      \<and> (drop 50 s = [] \<or> drop 50 s = js ''.''))"

definition all_zero :: "jsstring \<Rightarrow> bool" where
  "all_zero s = list_all (\<lambda>c. c = 0x30) s"

text \<open>The span id candidate with its one optional trailing dot stripped.\<close>

definition strip_dot :: "jsstring \<Rightarrow> jsstring" where
  "strip_dot p0 = (if p0 \<noteq> [] \<and> last p0 = 0x2E then butlast p0 else p0)"


section \<open>Trace-parent discovery\<close>

text \<open>
  The environment as the constructor sees it through \<^verbatim>\<open>hasWindow()\<close>,
  \<^verbatim>\<open>findW3cTraceParent()\<close>, \<^verbatim>\<open>getDocument()\<close> and \<^verbatim>\<open>getPerformance()\<close>, none of
  which is part of the sources: each is a field holding what the call returns. A
  document is the list \<^verbatim>\<open>querySelectorAll("meta")\<close> returns, a performance facility
  what \<^verbatim>\<open>getEntriesByType("navigation")\<close> returns, a navigation entry its
  \<^verbatim>\<open>serverTiming\<close> list. An element of such a list is an object, given by its
  properties.
\<close>

type_synonym element = "(jsstring \<times> jsval) list"

record Document =
  querySelectorAll_meta :: "element list"

record NavigationTiming =
  serverTiming :: "element list option"

record Performance =
  getEntriesByType_navigation :: "NavigationTiming list option"

record Environment =
  hasWindow :: bool
  findW3cTraceParent :: "ITraceParent option"
  getDocument :: "Document option"
  getPerformance :: "Performance option"

text \<open>The calls the discovery makes to its environment, in the order it makes them.\<close>

datatype probe = CallFindW3cTraceParent | CallGetDocument | CallGetPerformance

fun getRequestIdValue_loop :: "element list \<Rightarrow> jsval" where
  "getRequestIdValue_loop [] = Obj PlainObject []"
| "getRequestIdValue_loop (v # rest) =
     (if truthy (get_prop (Obj PlainObject v) (js ''name''))
         \<and> get_prop (Obj PlainObject v) (js ''name'') = Str (js ''Request-Id'')
      then Obj PlainObject v
      else getRequestIdValue_loop rest)"

definition getRequestIdValue :: "element list option \<Rightarrow> jsval" where
  "getRequestIdValue values =
     (case values of None \<Rightarrow> Obj PlainObject [] | Some vs \<Rightarrow> getRequestIdValue_loop vs)"

definition findRequestId :: "Environment \<Rightarrow> ITraceParent option \<times> probe list" where
  "findRequestId env =
     (let traceParent =
            (case getDocument env of
               Some doc \<Rightarrow>
                 parseRequestId
                   (get_prop (getRequestIdValue (Some (querySelectorAll_meta doc))) (js ''content''))
             | None \<Rightarrow> None)
      in case traceParent of
           Some tp \<Rightarrow> (Some tp, [CallGetDocument])
         | None \<Rightarrow>
             (case getPerformance env of
                Some perf \<Rightarrow>
                  (let navPerf = (case getEntriesByType_navigation perf of
                                    Some es \<Rightarrow> es | None \<Rightarrow> []);
                       timing = (case navPerf of e # es \<Rightarrow> serverTiming e | [] \<Rightarrow> None)
                   in (parseRequestId (get_prop (getRequestIdValue timing) (js ''description'')),
                       [CallGetDocument, CallGetPerformance]))
              | None \<Rightarrow> (None, [CallGetDocument, CallGetPerformance])))"

text \<open>
  The search of the constructor: \<^verbatim>\<open>findW3cTraceParent()\<close>, and \<^verbatim>\<open>_findRequestId()\<close>
  when that gave nothing.
\<close>

definition discover :: "Environment \<Rightarrow> ITraceParent option \<times> probe list" where
  "discover env =
     (case findW3cTraceParent env of
        Some tp \<Rightarrow> (Some tp, [CallFindW3cTraceParent])
      | None \<Rightarrow> (let (tp, probes) = findRequestId env in (tp, CallFindW3cTraceParent # probes)))"

text \<open>
  What each source of the search holds: the token of the document's first element named
  \<^verbatim>\<open>Request-Id\<close>, and the token of the first navigation entry's server timing.
\<close>

definition document_token :: "Environment \<Rightarrow> ITraceParent option" where
  "document_token env =
     (case getDocument env of
        Some doc \<Rightarrow>
          parseRequestId
            (get_prop (getRequestIdValue (Some (querySelectorAll_meta doc))) (js ''content''))
      | None \<Rightarrow> None)"

definition performance_token :: "Environment \<Rightarrow> ITraceParent option" where
  "performance_token env =
     (case getPerformance env of
        Some perf \<Rightarrow>
          (case getEntriesByType_navigation perf of
             Some (e # es) \<Rightarrow>
               parseRequestId (get_prop (getRequestIdValue (serverTiming e)) (js ''description''))
           | _ \<Rightarrow> None)
      | None \<Rightarrow> None)"

section \<open>The telemetry context\<close>

text \<open>
  The providers of a \<^verbatim>\<open>TelemetryContext\<close>; a provider that was never assigned is
  \<open>Undefined\<close>. The classes that build them are not part of the sources: the
  constructor takes what each \<^verbatim>\<open>new\<close> returns, and for \<^verbatim>\<open>TelemetryTrace\<close> the
  function from the arguments \<^verbatim>\<open>(id, parentId, name)\<close> to the object.
\<close>

record TelemetryContext =
  application :: jsval
  device :: jsval
  location :: jsval
  telemetryTrace :: jsval
  user :: jsval
  internal :: jsval
  session :: jsval
  sessionManager :: jsval
  os :: jsval
  web :: jsval

record Providers =
  new_Application :: jsval
  new_Internal :: jsval
  new_SessionManager :: jsval
  new_Device :: jsval
  new_Location :: jsval
  new_User :: jsval
  new_Session :: jsval
  new_TelemetryTrace :: "jsval \<Rightarrow> jsval \<Rightarrow> jsval \<Rightarrow> jsval"

record Config =
  disableTraceParent :: bool

definition construct :: "Providers \<Rightarrow> Environment \<Rightarrow> Config \<Rightarrow> TelemetryContext \<times> probe list" where
  "construct new env defaultConfig =
     (let self = \<lparr>application = new_Application new, device = Undefined, location = Undefined,
                  telemetryTrace = Undefined, user = Undefined, internal = new_Internal new,
                  session = Undefined, sessionManager = Undefined, os = Undefined,
                  web = Undefined\<rparr>
      in if hasWindow env then
           (let (traceParent, probes) =
                  (if \<not> disableTraceParent defaultConfig then discover env else (None, []));
                parentId = (case traceParent of Some tp \<Rightarrow> Str (spanId tp) | None \<Rightarrow> Undefined)
            in (self\<lparr>sessionManager := new_SessionManager new, device := new_Device new,
                      location := new_Location new, user := new_User new,
                      telemetryTrace := new_TelemetryTrace new Undefined parentId Undefined,
                      session := new_Session new\<rparr>,
                probes))
         else (self, []))"

definition getSessionId :: "TelemetryContext \<Rightarrow> jsval" where
  "getSessionId self =
     (if truthy (session self) \<and> isString (get_prop (session self) (js ''id''))
      then get_prop (session self) (js ''id'')
      else (let autoSession =
                  get_prop (if truthy (sessionManager self) then sessionManager self
                            else Obj PlainObject [])
                           (js ''automaticSession'')
            in if truthy autoSession \<and> isString (get_prop autoSession (js ''id''))
               then get_prop autoSession (js ''id'') else Null))"

section \<open>Writing into a telemetry item\<close>

text \<open>
  Modelled from the spec: \<^verbatim>\<open>setValue\<close> and \<^verbatim>\<open>getSetValue\<close> of
  applicationinsights-core-js, which are not part of the sources. Spec 4.4: every field
  write is a "set if present and of the expected type" guard; spec 9: "get or insert
  default" returns the existing sub-mapping or creates and attaches an empty one, then
  returns it; spec 5 and 7: no failure is propagated, a write that cannot be made is
  omitted. \<open>setValue\<close> skips the write when the field already holds the value and
  gives the target as the call leaves it; \<open>getSetValue\<close> gives the value it returns and
  the target as the call leaves it. A target that is absent has nothing a bucket could be
  attached to: \<open>getSetValue\<close> then returns the default, held by nothing. The source
  never passes the fifth parameter \<^verbatim>\<open>srcChk\<close> of \<^verbatim>\<open>setValue\<close>.
\<close>

definition setValue :: "jsval \<Rightarrow> jsstring \<Rightarrow> jsval \<Rightarrow> (jsval \<Rightarrow> bool) option \<Rightarrow> jsval" where
  "setValue target field v valChk =
     (if truthy target then
        (let theValue = get_prop target field in
         if theValue \<noteq> v \<and> (case valChk of None \<Rightarrow> True | Some chk \<Rightarrow> chk v)
         then put_prop target field v else target)
      else target)"

definition getSetValue :: "jsval \<Rightarrow> jsstring \<Rightarrow> jsval \<Rightarrow> jsval \<times> jsval" where
  "getSetValue target field defValue =
     (if truthy target then
        (let theValue = get_prop target field in
         if \<not> truthy theValue \<and> isNullOrUndefined theValue then
           (let theValue = (if \<not> isUndefined defValue then defValue else Obj PlainObject [])
            in (theValue, put_prop target field theValue))
         else (theValue, target))
      else ((if \<not> isUndefined defValue then defValue else Obj PlainObject []), target))"

text \<open>
  A bucket read from its holder is a reference: what the program writes through it is
  seen in the holder. The model passes values, so after the writes the bucket is put back
  under the name it was read from. Only an object can have been written through; a
  bucket made for a holder that is not an object is held by nothing, and
  \<open>put_prop\<close> drops it.
\<close>

definition write_back :: "jsval \<Rightarrow> jsstring \<Rightarrow> jsval \<Rightarrow> jsval" where
  "write_back holder name bucket = (if truthy bucket then put_prop holder name bucket else holder)"

text \<open>
  The two shapes every operation below has: a bucket taken with \<open>getSetValue\<close>,
  written through by \<open>g\<close> and put back; and a bucket read from its holder, written
  through and put back. \<open>settles g\<close> says that \<open>g\<close> writes nothing the second
  time, leaves a value that is not an object alone and an object an object.
\<close>

definition with_bucket :: "jsval \<Rightarrow> jsstring \<Rightarrow> jsval \<Rightarrow> (jsval \<Rightarrow> jsval) \<Rightarrow> jsval" where
  "with_bucket target field defValue g =
     (let (bucket, target) = getSetValue target field defValue
      in write_back target field (g bucket))"

definition with_held :: "jsval \<Rightarrow> jsstring \<Rightarrow> (jsval \<Rightarrow> jsval) \<Rightarrow> jsval" where
  "with_held holder name g = write_back holder name (g (get_prop holder name))"

definition settles :: "(jsval \<Rightarrow> jsval) \<Rightarrow> bool" where
  "settles g =
     ((\<forall>b. g (g b) = g b) \<and> (\<forall>b. \<not> is_obj b \<longrightarrow> g b = b) \<and> (\<forall>b. is_obj b \<longrightarrow> is_obj (g b)))"

definition strExt :: jsstring where "strExt = js ''ext''"
definition strTags :: jsstring where "strTags = js ''tags''"

text \<open>
  Modelled from the spec: the constants \<^verbatim>\<open>Extensions\<close> and \<^verbatim>\<open>CtxTagKeys\<close> of
  applicationinsights-common, which are not part of the sources. Spec 3 and 4.5 name the
  extension buckets \<^verbatim>\<open>device\<close>, \<^verbatim>\<open>user\<close>, \<^verbatim>\<open>web\<close>, \<^verbatim>\<open>os\<close>, \<^verbatim>\<open>app\<close>,
  \<^verbatim>\<open>trace\<close>; spec 4.4 names the tags \<^verbatim>\<open>tags.applicationVersion\<close>,
  \<^verbatim>\<open>tags.applicationBuild\<close>, \<^verbatim>\<open>tags.internalAgentVersion\<close>,
  \<^verbatim>\<open>tags.internalSdkVersion\<close>, \<^verbatim>\<open>tags.internalSnippet\<close>, \<^verbatim>\<open>tags.internalSdkSrc\<close>,
  \<^verbatim>\<open>tags.locationIp\<close> and \<^verbatim>\<open>tags.userAccountId\<close>.
\<close>

definition AppExt :: jsstring where "AppExt = js ''app''"
definition OSExt :: jsstring where "OSExt = js ''os''"
definition DeviceExt :: jsstring where "DeviceExt = js ''device''"
definition UserExt :: jsstring where "UserExt = js ''user''"
definition WebExt :: jsstring where "WebExt = js ''web''"
definition TraceExt :: jsstring where "TraceExt = js ''trace''"

definition applicationVersion :: jsstring where "applicationVersion = js ''applicationVersion''"
definition applicationBuild :: jsstring where "applicationBuild = js ''applicationBuild''"
definition internalAgentVersion :: jsstring where "internalAgentVersion = js ''internalAgentVersion''"
definition internalSdkVersion :: jsstring where "internalSdkVersion = js ''internalSdkVersion''"
definition internalSnippet :: jsstring where "internalSnippet = js ''internalSnippet''"
definition internalSdkSrc :: jsstring where "internalSdkSrc = js ''internalSdkSrc''"
definition locationIp :: jsstring where "locationIp = js ''locationIp''"
definition userAccountId :: jsstring where "userAccountId = js ''userAccountId''"

text \<open>
  \<^verbatim>\<open>_InternalLogMessage.dataType\<close> and \<^verbatim>\<open>PageView.dataType\<close> are declared in modules
  that are not part of the sources, and the spec does not give their values: the
  operations take them as a parameter.
\<close>

record DataTypes =
  InternalLogMessage_dataType :: jsstring
  PageView_dataType :: jsstring

section \<open>The apply operations and cleanUp\<close>

text \<open>
  Each operation takes the context (\<^verbatim>\<open>_self\<close>) and the item and gives the item as the
  call leaves it; no body uses the second parameter \<^verbatim>\<open>itemCtx\<close>. A body is translated
  statement by statement, with a \<open>write_back\<close> where a bucket was written through.
  \<^verbatim>\<open>_removeEmpty\<close>, \<^verbatim>\<open>_parseRequestId\<close>, \<^verbatim>\<open>_findRequestId\<close> and
  \<^verbatim>\<open>_getRequestIdValue\<close> lose their underscore.
\<close>

definition applySessionContext :: "TelemetryContext \<Rightarrow> jsval \<Rightarrow> jsval" where
  "applySessionContext self evt =
     (let ext = get_prop evt strExt;
          (app, ext) = getSetValue ext AppExt Undefined;
          app = setValue app (js ''sesId'') (getSessionId self) (Some isString);
          ext = write_back ext AppExt app
      in write_back evt strExt ext)"

definition applyOperatingSystemContxt :: "TelemetryContext \<Rightarrow> jsval \<Rightarrow> jsval" where
  "applyOperatingSystemContxt self evt =
     (let ext = get_prop evt strExt;
          ext = setValue ext OSExt (os self) None
      in write_back evt strExt ext)"

definition applyApplicationContext :: "TelemetryContext \<Rightarrow> jsval \<Rightarrow> jsval" where
  "applyApplicationContext self evt =
     (let application = application self in
      if truthy application then
        (let (tags, evt) = getSetValue evt strTags Undefined;
             tags = setValue tags applicationVersion (get_prop application (js ''ver'')) (Some isString);
             tags = setValue tags applicationBuild (get_prop application (js ''build'')) (Some isString)
         in write_back evt strTags tags)
      else evt)"

definition applyDeviceContext :: "TelemetryContext \<Rightarrow> jsval \<Rightarrow> jsval" where
  "applyDeviceContext self evt =
     (let device = device self in
      if truthy device then
        (let (ext, evt) = getSetValue evt strExt Undefined;
             (extDevice, ext) = getSetValue ext DeviceExt Undefined;
             extDevice = setValue extDevice (js ''localId'') (get_prop device (js ''id'')) (Some isString);
             extDevice = setValue extDevice (js ''ip'') (get_prop device (js ''ip'')) (Some isString);
             extDevice = setValue extDevice (js ''model'') (get_prop device (js ''model'')) (Some isString);
             extDevice = setValue extDevice (js ''deviceClass'') (get_prop device (js ''deviceClass''))
                           (Some isString);
             ext = write_back ext DeviceExt extDevice
         in write_back evt strExt ext)
      else evt)"

definition applyInternalContext :: "DataTypes \<Rightarrow> TelemetryContext \<Rightarrow> jsval \<Rightarrow> jsval" where
  "applyInternalContext dt self evt =
     (let internal = internal self in
      if truthy internal then
        (let (tags, evt) = getSetValue evt strTags Undefined;
             tags = setValue tags internalAgentVersion (get_prop internal (js ''agentVersion''))
                      (Some isString);
             tags = setValue tags internalSdkVersion (get_prop internal (js ''sdkVersion''))
                      (Some isString);
             tags = (if get_prop evt (js ''baseType'') = Str (InternalLogMessage_dataType dt)
                        \<or> get_prop evt (js ''baseType'') = Str (PageView_dataType dt)
                     then (let tags = setValue tags internalSnippet
                                        (get_prop internal (js ''snippetVer'')) (Some isString)
                           in setValue tags internalSdkSrc
                                (get_prop internal (js ''sdkSrc'')) (Some isString))
                     else tags)
         in write_back evt strTags tags)
      else evt)"

definition applyLocationContext :: "TelemetryContext \<Rightarrow> jsval \<Rightarrow> jsval" where
  "applyLocationContext self evt =
     (let location = location self in
      if truthy location then
        (let (tags, evt) = getSetValue evt strTags (Obj ArrayObject []);
             tags = setValue tags locationIp (get_prop location (js ''ip'')) (Some isString)
         in write_back evt strTags tags)
      else evt)"

definition applyOperationContext :: "TelemetryContext \<Rightarrow> jsval \<Rightarrow> jsval" where
  "applyOperationContext self evt =
     (let telemetryTrace = telemetryTrace self in
      if truthy telemetryTrace then
        (let (ext, evt) = getSetValue evt strExt Undefined;
             (extTrace, ext) =
                getSetValue ext TraceExt
                  (Obj PlainObject [(js ''traceID'', Undefined), (js ''parentID'', Undefined)]);
             extTrace = setValue extTrace (js ''traceID'') (get_prop telemetryTrace (js ''traceID''))
                          (Some isString);
             extTrace = setValue extTrace (js ''name'') (get_prop telemetryTrace (js ''name''))
                          (Some isString);
             extTrace = setValue extTrace (js ''parentID'') (get_prop telemetryTrace (js ''parentID''))
                          (Some isString);
             ext = write_back ext TraceExt extTrace
         in write_back evt strExt ext)
      else evt)"

definition applyWebContext :: "TelemetryContext \<Rightarrow> jsval \<Rightarrow> jsval" where
  "applyWebContext self evt =
     (let web = web self in
      if truthy web then
        (let (ext, evt) = getSetValue evt strExt Undefined;
             ext = setValue ext WebExt web None
         in write_back evt strExt ext)
      else evt)"

definition applyUserContext :: "TelemetryContext \<Rightarrow> jsval \<Rightarrow> jsval" where
  "applyUserContext self evt =
     (let user = user self in
      if truthy user then
        (let (tags, evt) = getSetValue evt strTags (Obj ArrayObject []);
             tags = setValue tags userAccountId (get_prop user (js ''accountId'')) (Some isString);
             evt = write_back evt strTags tags;
             (ext, evt) = getSetValue evt strExt Undefined;
             (extUser, ext) = getSetValue ext UserExt Undefined;
             extUser = setValue extUser (js ''id'') (get_prop user (js ''id'')) (Some isString);
             extUser = setValue extUser (js ''authId'') (get_prop user (js ''authenticatedId''))
                         (Some isString);
             ext = write_back ext UserExt extUser
         in write_back evt strExt ext)
      else evt)"

text \<open>
  The writes \<^verbatim>\<open>applyInternalContext\<close> makes into \<^verbatim>\<open>tags\<close>, as a function of the
  item's \<^verbatim>\<open>baseType\<close>.
\<close>

definition internal_tags :: "DataTypes \<Rightarrow> TelemetryContext \<Rightarrow> jsval \<Rightarrow> jsval \<Rightarrow> jsval" where
  "internal_tags dt self baseType tags =
     (if baseType = Str (InternalLogMessage_dataType dt) \<or> baseType = Str (PageView_dataType dt)
      then setValue (setValue (setValue (setValue tags
             internalAgentVersion (get_prop (internal self) (js ''agentVersion'')) (Some isString))
             internalSdkVersion (get_prop (internal self) (js ''sdkVersion'')) (Some isString))
             internalSnippet (get_prop (internal self) (js ''snippetVer'')) (Some isString))
             internalSdkSrc (get_prop (internal self) (js ''sdkSrc'')) (Some isString)
      else setValue (setValue tags
             internalAgentVersion (get_prop (internal self) (js ''agentVersion'')) (Some isString))
             internalSdkVersion (get_prop (internal self) (js ''sdkVersion'')) (Some isString))"

definition removeEmpty :: "jsval \<Rightarrow> jsstring \<Rightarrow> jsval" where
  "removeEmpty target name =
     (if truthy target \<and> truthy (get_prop target name)
         \<and> length (objKeys (get_prop target name)) = 0
      then delete_prop target name else target)"

definition cleanUp :: "jsval \<Rightarrow> jsval" where
  "cleanUp evt =
     (let ext = get_prop evt strExt in
      if truthy ext then
        (let ext = removeEmpty ext DeviceExt;
             ext = removeEmpty ext UserExt;
             ext = removeEmpty ext WebExt;
             ext = removeEmpty ext OSExt;
             ext = removeEmpty ext AppExt;
             ext = removeEmpty ext TraceExt
         in write_back evt strExt ext)
      else evt)"

text \<open>The six calls of \<^verbatim>\<open>_removeEmpty\<close> that \<^verbatim>\<open>cleanUp\<close> makes, in its order.\<close>

definition pruned :: "jsval \<Rightarrow> jsval" where
  "pruned ext = removeEmpty (removeEmpty (removeEmpty (removeEmpty (removeEmpty (removeEmpty ext
       DeviceExt) UserExt) WebExt) OSExt) AppExt) TraceExt"

text \<open>The nine apply operations by name, and a sequence of them run on one item.\<close>

datatype applyOp =
    SessionContext | OperatingSystemContxt | ApplicationContext | DeviceContext
  | InternalContext | LocationContext | OperationContext | WebContext | UserContext

fun apply_op :: "DataTypes \<Rightarrow> TelemetryContext \<Rightarrow> applyOp \<Rightarrow> jsval \<Rightarrow> jsval" where
  "apply_op dt self SessionContext evt = applySessionContext self evt"
| "apply_op dt self OperatingSystemContxt evt = applyOperatingSystemContxt self evt"
| "apply_op dt self ApplicationContext evt = applyApplicationContext self evt"
| "apply_op dt self DeviceContext evt = applyDeviceContext self evt"
| "apply_op dt self InternalContext evt = applyInternalContext dt self evt"
| "apply_op dt self LocationContext evt = applyLocationContext self evt"
| "apply_op dt self OperationContext evt = applyOperationContext self evt"
| "apply_op dt self WebContext evt = applyWebContext self evt"
| "apply_op dt self UserContext evt = applyUserContext self evt"

definition apply_ops :: "DataTypes \<Rightarrow> TelemetryContext \<Rightarrow> applyOp list \<Rightarrow> jsval \<Rightarrow> jsval" where
  "apply_ops dt self ops evt = fold (apply_op dt self) ops evt"

definition named_buckets :: "jsstring list" where
  "named_buckets = [DeviceExt, UserExt, WebExt, OSExt, AppExt, TraceExt]"

definition empty_object :: "jsval \<Rightarrow> bool" where
  "empty_object v = (truthy v \<and> objKeys v = [])"


section \<open>Example data\<close>

text \<open>
  A context with no provider, the providers a browser page would build, environments with
  and without a window, and the two data type names. The function for
  \<^verbatim>\<open>TelemetryTrace\<close> keeps a given id and otherwise makes its own, as spec 4.3 says of
  the identity provider.
\<close>

definition no_providers :: TelemetryContext where
  "no_providers =
     \<lparr>application = Undefined, device = Undefined, location = Undefined,
      telemetryTrace = Undefined, user = Undefined, internal = Undefined, session = Undefined,
      sessionManager = Undefined, os = Undefined, web = Undefined\<rparr>"

definition example_providers :: Providers where
  "example_providers =
     \<lparr>new_Application = Obj PlainObject [],
      new_Internal = Obj PlainObject [(js ''sdkVersion'', Str (js ''javascript:2.8.0''))],
      new_SessionManager =
        Obj PlainObject [(js ''automaticSession'', Obj PlainObject [(js ''id'', Str (js ''a1''))])],
      new_Device = Obj PlainObject [(js ''id'', Str (js ''browser''))],
      new_Location = Obj PlainObject [],
      new_User = Obj PlainObject [(js ''id'', Str (js ''u1''))],
      new_Session = Obj PlainObject [],
      new_TelemetryTrace =
        (\<lambda>id parentId name.
           Obj PlainObject [(js ''traceID'', if truthy id then id else Str (js ''generated'')),
                            (js ''parentID'', parentId), (js ''name'', name)])\<rparr>"

definition example_dataTypes :: DataTypes where
  "example_dataTypes =
     \<lparr>InternalLogMessage_dataType = js ''MessageData'', PageView_dataType = js ''PageviewData''\<rparr>"

definition example_traceParent :: ITraceParent where
  "example_traceParent =
     \<lparr>traceId = js ''4bf92f3577b34da6a3ce929d0e0e4736'', spanId = js ''00f067aa0ba902b7''\<rparr>"

definition meta_garbage :: element where
  "meta_garbage = [(js ''name'', Str (js ''Request-Id'')), (js ''content'', Str (js ''garbage''))]"

definition meta_valid :: element where
  "meta_valid =
     [(js ''name'', Str (js ''Request-Id'')),
      (js ''content'', Str (js ''|4bf92f3577b34da6a3ce929d0e0e4736.00f067aa0ba902b7.''))]"

definition meta_viewport :: element where
  "meta_viewport = [(js ''name'', Str (js ''viewport'')), (js ''content'', Str (js ''width=100''))]"

definition page_two_request_ids :: Environment where
  "page_two_request_ids =
     \<lparr>hasWindow = True, findW3cTraceParent = None,
      getDocument = Some \<lparr>querySelectorAll_meta = [meta_viewport, meta_garbage, meta_valid]\<rparr>,
      getPerformance = None\<rparr>"

definition page_request_id :: Environment where
  "page_request_id =
     \<lparr>hasWindow = True, findW3cTraceParent = None,
      getDocument = Some \<lparr>querySelectorAll_meta = [meta_viewport, meta_valid, meta_garbage]\<rparr>,
      getPerformance = Some \<lparr>getEntriesByType_navigation = Some []\<rparr>\<rparr>"

definition worker_with_carrier :: Environment where
  "worker_with_carrier =
     \<lparr>hasWindow = False, findW3cTraceParent = Some example_traceParent,
      getDocument = None, getPerformance = None\<rparr>"

definition trace_parent_enabled :: Config where
  "trace_parent_enabled = \<lparr>disableTraceParent = False\<rparr>"

definition session_and_device :: TelemetryContext where
  "session_and_device =
     no_providers\<lparr>session := Obj PlainObject [(js ''id'', Str (js ''s1''))],
                  device := Obj PlainObject [(js ''id'', Str (js ''d1''))],
                  os := Obj PlainObject [(js ''name'', Str (js ''Windows''))],
                  web := Obj PlainObject [(js ''domain'', Str (js ''example.org''))]\<rparr>"

definition worker :: Environment where
  "worker = \<lparr>hasWindow = False, findW3cTraceParent = None, getDocument = None, getPerformance = None\<rparr>"

definition trace_without_ids :: TelemetryContext where
  "trace_without_ids = no_providers\<lparr>telemetryTrace := Obj PlainObject []\<rparr>"

definition item_with_sdk :: jsval where
  "item_with_sdk = Obj PlainObject [(js ''ext'', Obj PlainObject [(js ''sdk'', Obj PlainObject [])])]"

definition item_with_os :: jsval where
  "item_with_os =
     Obj PlainObject [(js ''ext'', Obj PlainObject
        [(js ''os'', Obj PlainObject [(js ''name'', Str (js ''Linux''))])])]"

definition item_with_web :: jsval where
  "item_with_web =
     Obj PlainObject [(js ''ext'', Obj PlainObject
        [(js ''web'', Obj PlainObject [(js ''domain'', Str (js ''example.org''))])])]"

section \<open>The parser and the legacy format\<close>

lemma js_bar: "js ''|'' = [0x7C]" by (simp add: js_def)
lemma js_dot: "js ''.'' = [0x2E]" by (simp add: js_def)
lemma js_zero: "js ''0'' = [0x30]" by (simp add: js_def)

lemma dot_not_hex: "\<not> isHexDigit 0x2E" by (simp add: isHexDigit_def)

lemma indexOf_char:
  "indexOf s [c] = (if c \<in> set s then int (length (takeWhile (\<lambda>x. x \<noteq> c) s)) else - 1)"
  by (induction s) (auto simp: Let_def)

lemma substring_take_drop:
  "0 \<le> a \<Longrightarrow> a \<le> b \<Longrightarrow> substring s a b = take (nat b - nat a) (drop (nat a) s)"
  by (auto simp: substring_def Let_def min_def max_def nat_diff_distrib)

lemma substring_from_drop: "0 \<le> a \<Longrightarrow> substring_from s a = drop (nat a) s"
  by (auto simp: substring_from_def substring_def Let_def min_def max_def)

lemma strEndsWith_char: "strEndsWith s [c] = (s \<noteq> [] \<and> last s = c)"
proof (cases s rule: rev_cases)
  case Nil
  then show ?thesis by (simp add: strEndsWith_def)
next
  case (snoc ys y)
  then show ?thesis by (simp add: strEndsWith_def)
qed

lemma strStartsWith_char: "strStartsWith s [c] = (\<exists>r. s = c # r)"
  by (cases s) (auto simp: strStartsWith_def)


lemma parse_Str:
  "parseRequestId (Str s) =
     (case strTrim s of
        [] \<Rightarrow> None
      | c # r \<Rightarrow>
          if c = 0x7C \<and> 0x2E \<in> set r then
            (let k = length (takeWhile (\<lambda>x. x \<noteq> 0x2E) r);
                 t = take k r;
                 p = strip_dot (drop (Suc k) r)
             in if isValid t 32 \<and> isValid p 16 then Some \<lparr>traceId = t, spanId = p\<rparr> else None)
          else None)"
proof (cases "s = []")
  case True
  then show ?thesis by (simp add: parseRequestId_def strTrim_def)
next
  case False
  show ?thesis
  proof (cases "strTrim s")
    case Nil
    then show ?thesis using False
      by (simp add: parseRequestId_def Let_def strStartsWith_def js_bar)
  next
    case (Cons c r)
    show ?thesis
    proof (cases "c = 0x7C \<and> 0x2E \<in> set r")
      case False
      then show ?thesis using Cons \<open>s \<noteq> []\<close>
        by (auto simp: parseRequestId_def Let_def strStartsWith_def js_bar js_dot indexOf_char)
    next
      case True
      define k where "k = length (takeWhile (\<lambda>x. x \<noteq> (0x2E::jschar)) r)"
      have idx: "indexOf (c # r) [0x2E] = int k + 1"
        using True by (simp add: indexOf_char k_def)
      have kle: "k \<le> length r" unfolding k_def by (rule length_takeWhile_le)
      have t: "substring (x # r) 1 (int k + 1) = take k r" for x
        using kle by (simp add: substring_take_drop nat_add_distrib)
      have p0: "substring_from (x # r) (2 + int k) = drop (Suc k) r" for x
        by (simp add: substring_from_drop nat_add_distrib)
      have strip: "(if strEndsWith p0 [0x2E] then substring p0 0 (int (length p0) - 1) else p0) = strip_dot p0" for p0
        by (cases p0 rule: rev_cases) (auto simp: strEndsWith_char strip_dot_def substring_take_drop butlast_conv_take)
      show ?thesis using True Cons \<open>s \<noteq> []\<close> idx
        by (simp add: parseRequestId_def Let_def strStartsWith_def js_bar js_dot t p0 strip
            isValidTraceId_def isValidSpanId_def createTraceParent_def k_def[symmetric])
    qed
  qed
qed


lemma all_zero_iff: "all_zero s = (s = replicate (length s) 0x30)"
  by (induction s) (auto simp: all_zero_def)

lemma hex_no_dot: "list_all isHexDigit t \<Longrightarrow> (0x2E::jschar) \<notin> set t"
  using dot_not_hex by (auto simp: list_all_iff)

lemma legacy_format_shape:
  "legacy_format v =
     (\<exists>t p d. v = 0x7C # t @ 0x2E # p @ d \<and> length t = 32 \<and> list_all isHexDigit t
        \<and> length p = 16 \<and> list_all isHexDigit p \<and> (d = [] \<or> d = [0x2E]))"
proof
  assume L: "legacy_format v"
  define t where "t = take 32 (drop 1 v)"
  define p where "p = take 16 (drop 34 v)"
  define d where "d = drop 50 v"
  have e1: "v = take 1 v @ drop 1 v" by simp
  have e2: "drop 1 v = t @ drop 33 v"
    using append_take_drop_id [of 32 "drop 1 v"] by (simp add: t_def)
  have e3: "drop 33 v = take 1 (drop 33 v) @ drop 34 v"
    using append_take_drop_id [of 1 "drop 33 v"] by simp
  have e4: "drop 34 v = p @ d"
    using append_take_drop_id [of 16 "drop 34 v"] by (simp add: p_def d_def)
  have "v = take 1 v @ t @ take 1 (drop 33 v) @ p @ d"
    using e1 e2 e3 e4 by metis
  then have "v = 0x7C # t @ 0x2E # p @ d"
    using L by (simp add: legacy_format_def js_bar js_dot)
  moreover have "length t = 32" "list_all isHexDigit t" "length p = 16" "list_all isHexDigit p"
    "d = [] \<or> d = [0x2E]"
    using L by (simp_all add: legacy_format_def t_def p_def d_def js_dot)
  ultimately show "\<exists>t p d. v = 0x7C # t @ 0x2E # p @ d \<and> length t = 32 \<and> list_all isHexDigit t
        \<and> length p = 16 \<and> list_all isHexDigit p \<and> (d = [] \<or> d = [0x2E])"
    by blast
next
  assume "\<exists>t p d. v = 0x7C # t @ 0x2E # p @ d \<and> length t = 32 \<and> list_all isHexDigit t
        \<and> length p = 16 \<and> list_all isHexDigit p \<and> (d = [] \<or> d = [0x2E])"
  then obtain t p d where v: "v = 0x7C # t @ 0x2E # p @ d" and "length t = 32" "list_all isHexDigit t"
     "length p = 16" "list_all isHexDigit p" "d = [] \<or> d = [0x2E]" by blast
  then show "legacy_format v"
    by (auto simp: legacy_format_def js_bar js_dot)
qed

lemma split_at_dot:
  assumes "(0x2E::jschar) \<in> set r"
  defines "k \<equiv> length (takeWhile (\<lambda>x. x \<noteq> (0x2E::jschar)) r)"
  shows "r = take k r @ 0x2E # drop (Suc k) r"
proof -
  have "k \<le> length r" unfolding k_def by (rule length_takeWhile_le)
  moreover have "k \<noteq> length r"
  proof
    assume "k = length r"
    then have "takeWhile (\<lambda>x. x \<noteq> (0x2E::jschar)) r = r"
      using takeWhile_eq_take [of "\<lambda>x. x \<noteq> (0x2E::jschar)" r] by (simp add: k_def)
    then show False using assms(1) by (auto simp: takeWhile_eq_all_conv)
  qed
  ultimately have "k < length r" by simp
  moreover have "r ! k = 0x2E"
    using nth_length_takeWhile [of "\<lambda>x. x \<noteq> (0x2E::jschar)" r] \<open>k < length r\<close>
    unfolding k_def by simp
  ultimately show ?thesis
    using id_take_nth_drop [of k r] by simp
qed

lemma strip_dot_cases: "p0 = strip_dot p0 \<or> p0 = strip_dot p0 @ [0x2E]"
  by (cases p0 rule: rev_cases) (auto simp: strip_dot_def)

lemma strip_dot_hex:
  "length p = 16 \<Longrightarrow> list_all isHexDigit p \<Longrightarrow> d = [] \<or> d = [0x2E] \<Longrightarrow> strip_dot (p @ d) = p"
proof -
  assume len: "length p = 16" and hex: "list_all isHexDigit p" and d: "d = [] \<or> d = [0x2E]"
  from len have ne: "p \<noteq> []" by auto
  then have "last p \<in> set p" by simp
  with hex have "last p \<noteq> 0x2E" using hex_no_dot by metis
  with d ne show ?thesis by (auto simp: strip_dot_def)
qed

lemma parse_shape:
  "parseRequestId (Str s) = Some \<lparr>traceId = t, spanId = p\<rparr> \<longleftrightarrow>
     (\<exists>d. strTrim s = 0x7C # t @ 0x2E # p @ d \<and> (d = [] \<or> d = [0x2E])
          \<and> isValid t 32 \<and> isValid p 16)"
proof
  assume P: "parseRequestId (Str s) = Some \<lparr>traceId = t, spanId = p\<rparr>"
  then obtain c r where v: "strTrim s = c # r"
    by (cases "strTrim s") (auto simp: parse_Str)
  define k where "k = length (takeWhile (\<lambda>x. x \<noteq> (0x2E::jschar)) r)"
  from P v have c: "c = 0x7C" and dot: "0x2E \<in> set r"
    and t: "t = take k r" and p: "p = strip_dot (drop (Suc k) r)"
    and val: "isValid t 32" "isValid p 16"
    by (auto simp: parse_Str Let_def k_def split: if_splits)
  have r: "r = t @ 0x2E # drop (Suc k) r"
    using split_at_dot [OF dot] t k_def by simp
  from strip_dot_cases [of "drop (Suc k) r"] p
  obtain d where "drop (Suc k) r = p @ d" "d = [] \<or> d = [0x2E]" by auto
  with r have "r = t @ 0x2E # p @ d" by simp
  with v c val \<open>d = [] \<or> d = [0x2E]\<close>
  show "\<exists>d. strTrim s = 0x7C # t @ 0x2E # p @ d \<and> (d = [] \<or> d = [0x2E])
          \<and> isValid t 32 \<and> isValid p 16" by blast
next
  assume "\<exists>d. strTrim s = 0x7C # t @ 0x2E # p @ d \<and> (d = [] \<or> d = [0x2E])
          \<and> isValid t 32 \<and> isValid p 16"
  then obtain d where v: "strTrim s = 0x7C # t @ 0x2E # p @ d" and d: "d = [] \<or> d = [0x2E]"
    and val: "isValid t 32" "isValid p 16" by blast
  have nodot: "\<And>x. x \<in> set t \<Longrightarrow> x \<noteq> 0x2E"
    using val(1) hex_no_dot by (auto simp: isValid_def)
  have tw: "takeWhile (\<lambda>x. x \<noteq> (0x2E::jschar)) (t @ 0x2E # p @ d) = t"
    using nodot by (simp add: takeWhile_append2)
  have sd: "strip_dot (p @ d) = p"
    using val(2) d by (intro strip_dot_hex) (auto simp: isValid_def)
  show "parseRequestId (Str s) = Some \<lparr>traceId = t, spanId = p\<rparr>"
    using v val sd by (simp add: parse_Str tw Let_def)
qed

text \<open>
  Claim C1. For every string, \<^verbatim>\<open>_parseRequestId\<close> returns a trace parent exactly when
  the trimmed string has the legacy format and neither hexadecimal half is all-zero;
  every other string gives none. The trace id of the result is the 32 characters after
  the bar and its span id the 16 characters after the dot, whether or not the string
  ends in one more dot.
\<close>

theorem parseRequestId_legacy_format:
  "parseRequestId (Str s) =
     (let v = strTrim s; t = take 32 (drop 1 v); p = take 16 (drop 34 v)
      in if legacy_format v \<and> \<not> all_zero t \<and> \<not> all_zero p
         then Some \<lparr>traceId = t, spanId = p\<rparr> else None)"
proof -
  define v where "v = strTrim s"
  define t where "t = take 32 (drop 1 v)"
  define p where "p = take 16 (drop 34 v)"
  have A: "parseRequestId (Str s) = Some \<lparr>traceId = t, spanId = p\<rparr>"
    if "legacy_format v" "\<not> all_zero t" "\<not> all_zero p"
  proof -
    from that(1) obtain t' p' d where sh: "v = 0x7C # t' @ 0x2E # p' @ d" "length t' = 32"
      "list_all isHexDigit t'" "length p' = 16" "list_all isHexDigit p'" "d = [] \<or> d = [0x2E]"
      unfolding legacy_format_shape by blast
    then have "t = t'" "p = p'" by (simp_all add: t_def p_def)
    with sh that show ?thesis
      unfolding parse_shape v_def [symmetric] by (auto simp: isValid_def all_zero_iff)
  qed
  have B: "legacy_format v \<and> \<not> all_zero t \<and> \<not> all_zero p \<and> tp = \<lparr>traceId = t, spanId = p\<rparr>"
    if "parseRequestId (Str s) = Some tp" for tp
  proof -
    obtain t' p' where tp: "tp = \<lparr>traceId = t', spanId = p'\<rparr>" by (cases tp) auto
    with that have "parseRequestId (Str s) = Some \<lparr>traceId = t', spanId = p'\<rparr>" by simp
    then obtain d where sh: "v = 0x7C # t' @ 0x2E # p' @ d" "d = [] \<or> d = [0x2E]"
       "isValid t' 32" "isValid p' 16"
      unfolding parse_shape v_def by blast
    then have eq: "t = t'" "p = p'" by (simp_all add: t_def p_def isValid_def)
    have "legacy_format v" unfolding legacy_format_shape using sh by (auto simp: isValid_def)
    with sh eq tp show ?thesis by (auto simp: isValid_def all_zero_iff)
  qed
  show ?thesis
    unfolding Let_def v_def [symmetric] t_def [symmetric] p_def [symmetric]
    using A B by (cases "parseRequestId (Str s)") auto
qed


theorem parseRequestId_legacy_format_witness:
  "parseRequestId (Str (js '' |4bf92f3577b34da6a3ce929d0e0e4736.00f067aa0ba902b7.''))
     = Some \<lparr>traceId = js ''4bf92f3577b34da6a3ce929d0e0e4736'', spanId = js ''00f067aa0ba902b7''\<rparr>
   \<and> parseRequestId (Str (js ''|4bf92f3577b34da6a3ce929d0e0e4736.00f067aa0ba902b7''))
     = Some \<lparr>traceId = js ''4bf92f3577b34da6a3ce929d0e0e4736'', spanId = js ''00f067aa0ba902b7''\<rparr>
   \<and> parseRequestId (Str (js ''|00000000000000000000000000000000.00f067aa0ba902b7.'')) = None
   \<and> parseRequestId (Str (js ''|4BF92F3577B34DA6A3CE929D0E0E4736.00f067aa0ba902b7.'')) = None"
  by (simp only: parseRequestId_legacy_format) code_simp


section \<open>Properties, objects and buckets\<close>

lemma get_put_same: "is_obj t \<Longrightarrow> get_prop (put_prop t f v) f = v"
  by (cases t) (simp_all add: update_conv')

lemma get_put_other: "f' \<noteq> f \<Longrightarrow> get_prop (put_prop t f v) f' = get_prop t f'"
  by (cases t) (simp_all add: update_conv')

lemma put_get_id: "get_prop t f \<noteq> Undefined \<Longrightarrow> put_prop t f (get_prop t f) = t"
  by (cases t) (auto simp: update_triv split: option.splits)

lemma put_fixed: "get_prop t f = v \<Longrightarrow> v \<noteq> Undefined \<Longrightarrow> put_prop t f v = t"
  using put_get_id by blast

lemma put_put_same: "put_prop (put_prop t f v) f w = put_prop t f w"
  by (cases t) simp_all

lemma truthy_put: "truthy (put_prop t f v) = truthy t"
  by (cases t) simp_all

lemma is_obj_put: "is_obj (put_prop t f v) = is_obj t"
  by (cases t) simp_all

lemma put_prim: "\<not> is_obj t \<Longrightarrow> put_prop t f v = t"
  by (cases t) simp_all

lemma get_prim: "\<not> is_obj t \<Longrightarrow> get_prop t f = Undefined"
  by (cases t) simp_all

lemma is_obj_truthy: "is_obj t \<Longrightarrow> truthy t"
  by (cases t) simp_all

lemma truthy_defined: "truthy t \<Longrightarrow> \<not> isNullOrUndefined t"
  by (cases t) simp_all

lemma isNullOrUndefined_iff: "isNullOrUndefined t = (t = Undefined \<or> t = Null)"
  by (cases t) simp_all

lemma isString_defined: "isString v \<Longrightarrow> v \<noteq> Undefined"
  by (cases v) simp_all

lemma setValue_prim: "\<not> is_obj b \<Longrightarrow> setValue b f v c = b"
  by (simp add: setValue_def Let_def put_prim)

lemma is_obj_setValue: "is_obj (setValue b f v c) = is_obj b"
  by (simp add: setValue_def Let_def is_obj_put)

lemma setValue_isString:
  "setValue b f v (Some isString) = (if isString v then put_prop b f v else b)"
proof (cases "is_obj b")
  case False
  then show ?thesis by (simp add: setValue_prim put_prim)
next
  case True
  then show ?thesis
    by (auto simp: setValue_def Let_def is_obj_truthy put_fixed isString_defined)
qed

lemma settles_setValue: "settles (\<lambda>b. setValue b f v c)"
  unfolding settles_def
proof (intro conjI allI impI)
  fix b show "setValue (setValue b f v c) f v c = setValue b f v c"
    by (cases "is_obj b") (auto simp: setValue_def Let_def get_put_same put_prim truthy_put)
qed (simp_all add: setValue_prim is_obj_setValue)

lemma write_back_prim: "\<not> is_obj t \<Longrightarrow> write_back t f b = t"
  by (simp add: write_back_def put_prim)

lemma with_bucket_prim: "\<not> is_obj t \<Longrightarrow> with_bucket t f d g = t"
  by (auto simp: with_bucket_def getSetValue_def write_back_def Let_def put_prim)

lemma is_obj_with_bucket: "is_obj (with_bucket t f d g) = is_obj t"
  by (auto simp: with_bucket_def getSetValue_def write_back_def Let_def is_obj_put)

lemma with_bucket_frame: "f' \<noteq> f \<Longrightarrow> get_prop (with_bucket t f d g) f' = get_prop t f'"
  by (auto simp: with_bucket_def getSetValue_def write_back_def Let_def get_put_other)

lemma with_bucket_fix:
  assumes "\<not> isNullOrUndefined (get_prop t f)" "g (get_prop t f) = get_prop t f"
  shows "with_bucket t f d g = t"
proof (cases "is_obj t")
  case False
  then show ?thesis by (rule with_bucket_prim)
next
  case True
  with assms show ?thesis
    by (auto simp: with_bucket_def getSetValue_def write_back_def Let_def put_get_id
        isNullOrUndefined_iff is_obj_truthy)
qed

lemma settles_falsy: "settles g \<Longrightarrow> \<not> truthy b \<Longrightarrow> g b = b"
  using is_obj_truthy by (auto simp: settles_def)

lemma settles_truthy: "settles g \<Longrightarrow> truthy b \<Longrightarrow> truthy (g b)"
  by (metis settles_def is_obj_truthy)

lemma settles_idem: "settles g \<Longrightarrow> g (g b) = g b"
  by (simp add: settles_def)

lemma with_bucket_established:
  assumes t: "is_obj t" and g: "settles g" and d: "d \<noteq> Null"
  shows "\<not> isNullOrUndefined (get_prop (with_bucket t f d g) f)
         \<and> g (get_prop (with_bucket t f d g) f) = get_prop (with_bucket t f d g) f"
proof -
  define b where "b = (if isNullOrUndefined (get_prop t f)
                        then (if isUndefined d then Obj PlainObject [] else d) else get_prop t f)"
  have bdef: "\<not> isNullOrUndefined b"
    using d by (cases d) (auto simp: b_def)
  have gs: "getSetValue t f d = (b, if isNullOrUndefined (get_prop t f) then put_prop t f b else t)"
    using t by (auto simp: getSetValue_def Let_def b_def is_obj_truthy truthy_defined)
  have held: "get_prop (if isNullOrUndefined (get_prop t f) then put_prop t f b else t) f = b"
    using t by (auto simp: get_put_same b_def)
  show ?thesis
  proof (cases "truthy (g b)")
    case True
    then have "get_prop (with_bucket t f d g) f = g b"
      using t by (simp add: with_bucket_def gs write_back_def get_put_same is_obj_put)
    with True g show ?thesis by (simp add: truthy_defined settles_idem)
  next
    case False
    then have nb: "\<not> truthy b" using settles_truthy [OF g] by blast
    from False have "get_prop (with_bucket t f d g) f = b"
      using held by (simp add: with_bucket_def gs write_back_def)
    with bdef nb g show ?thesis by (simp add: settles_falsy)
  qed
qed

lemma settles_with_bucket:
  assumes g: "settles g" and d: "d \<noteq> Null"
  shows "settles (\<lambda>t. with_bucket t f d g)"
  unfolding settles_def
proof (intro conjI allI impI)
  fix t show "with_bucket (with_bucket t f d g) f d g = with_bucket t f d g"
  proof (cases "is_obj t")
    case False
    then show ?thesis by (simp add: with_bucket_prim)
  next
    case True
    from with_bucket_established [OF True g d, of f] show ?thesis
      by (intro with_bucket_fix) simp_all
  qed
qed (simp_all add: with_bucket_prim is_obj_with_bucket)

lemma with_held_prim: "\<not> is_obj t \<Longrightarrow> with_held t f g = t"
  by (simp add: with_held_def write_back_prim)

lemma is_obj_with_held: "is_obj (with_held t f g) = is_obj t"
  by (simp add: with_held_def write_back_def is_obj_put)

lemma with_held_frame: "f' \<noteq> f \<Longrightarrow> get_prop (with_held t f g) f' = get_prop t f'"
  by (simp add: with_held_def write_back_def get_put_other)

lemma settles_with_held:
  assumes g: "settles g"
  shows "settles (\<lambda>t. with_held t f g)"
  unfolding settles_def
proof (intro conjI allI impI)
  fix t show "with_held (with_held t f g) f g = with_held t f g"
  proof (cases "is_obj t")
    case False
    then show ?thesis by (simp add: with_held_prim)
  next
    case True
    show ?thesis
    proof (cases "truthy (g (get_prop t f))")
      case True
      with \<open>is_obj t\<close> g show ?thesis
        by (simp add: with_held_def write_back_def get_put_same settles_idem put_put_same)
    next
      case False
      then show ?thesis by (simp add: with_held_def write_back_def)
    qed
  qed
qed (simp_all add: with_held_prim is_obj_with_held)

section \<open>The apply operations write once\<close>

lemmas put_facts = put_prim is_obj_put put_fixed get_put_same get_put_other isString_defined

lemma settles_chain2:
  assumes "f1 \<noteq> f2"
  shows "settles (\<lambda>b. setValue (setValue b f1 v1 (Some isString)) f2 v2 (Some isString))"
  unfolding settles_def setValue_isString
  apply (intro conjI allI impI)
  subgoal for b using assms by (cases "is_obj b") (auto simp: put_facts)
  subgoal by (simp add: put_prim)
  subgoal by (simp add: is_obj_put)
  done

lemma settles_chain3:
  assumes "distinct [f1, f2, f3]"
  shows "settles (\<lambda>b. setValue (setValue (setValue b f1 v1 (Some isString)) f2 v2 (Some isString))
                         f3 v3 (Some isString))"
  unfolding settles_def setValue_isString
  apply (intro conjI allI impI)
  subgoal for b using assms by (cases "is_obj b") (auto simp: put_facts)
  subgoal by (simp add: put_prim)
  subgoal by (simp add: is_obj_put)
  done

lemma settles_chain4:
  assumes "distinct [f1, f2, f3, f4]"
  shows "settles (\<lambda>b. setValue (setValue (setValue (setValue b f1 v1 (Some isString))
                         f2 v2 (Some isString)) f3 v3 (Some isString)) f4 v4 (Some isString))"
  unfolding settles_def setValue_isString
  apply (intro conjI allI impI)
  subgoal for b using assms by (cases "is_obj b") (auto simp: put_facts)
  subgoal by (simp add: put_prim)
  subgoal by (simp add: is_obj_put)
  done


lemmas names = strExt_def strTags_def AppExt_def OSExt_def DeviceExt_def UserExt_def WebExt_def
  TraceExt_def applicationVersion_def applicationBuild_def internalAgentVersion_def
  internalSdkVersion_def internalSnippet_def internalSdkSrc_def locationIp_def userAccountId_def
  js_def

lemma applySessionContext_form:
  "applySessionContext self evt =
     with_held evt strExt (\<lambda>ext. with_bucket ext AppExt Undefined
       (\<lambda>app. setValue app (js ''sesId'') (getSessionId self) (Some isString)))"
  by (simp add: applySessionContext_def with_held_def with_bucket_def Let_def split_def)

lemma applyOperatingSystemContxt_form:
  "applyOperatingSystemContxt self evt =
     with_held evt strExt (\<lambda>ext. setValue ext OSExt (os self) None)"
  by (simp add: applyOperatingSystemContxt_def with_held_def Let_def)

lemma applyApplicationContext_form:
  "applyApplicationContext self evt =
     (if truthy (application self) then
        with_bucket evt strTags Undefined
          (\<lambda>tags. setValue (setValue tags applicationVersion
                      (get_prop (application self) (js ''ver'')) (Some isString))
                    applicationBuild (get_prop (application self) (js ''build'')) (Some isString))
      else evt)"
  by (simp add: applyApplicationContext_def with_bucket_def Let_def split_def)

lemma applyDeviceContext_form:
  "applyDeviceContext self evt =
     (if truthy (device self) then
        with_bucket evt strExt Undefined (\<lambda>ext. with_bucket ext DeviceExt Undefined
          (\<lambda>b. setValue (setValue (setValue (setValue b
                   (js ''localId'') (get_prop (device self) (js ''id'')) (Some isString))
                   (js ''ip'') (get_prop (device self) (js ''ip'')) (Some isString))
                   (js ''model'') (get_prop (device self) (js ''model'')) (Some isString))
                   (js ''deviceClass'') (get_prop (device self) (js ''deviceClass'')) (Some isString)))
      else evt)"
  by (simp add: applyDeviceContext_def with_bucket_def Let_def split_def)

lemma getSetValue_frame:
  "f' \<noteq> f \<Longrightarrow> get_prop (snd (getSetValue t f d)) f' = get_prop t f'"
  by (simp add: getSetValue_def Let_def get_put_other)

lemma applyInternalContext_form:
  "applyInternalContext dt self evt =
     (if truthy (internal self) then
        with_bucket evt strTags Undefined (internal_tags dt self (get_prop evt (js ''baseType'')))
      else evt)"
proof -
  have "get_prop (snd (getSetValue evt strTags Undefined)) (js ''baseType'')
          = get_prop evt (js ''baseType'')"
    by (rule getSetValue_frame) (simp add: names)
  then show ?thesis
    by (simp add: applyInternalContext_def with_bucket_def internal_tags_def Let_def split_def)
qed

lemma applyLocationContext_form:
  "applyLocationContext self evt =
     (if truthy (location self) then
        with_bucket evt strTags (Obj ArrayObject [])
          (\<lambda>tags. setValue tags locationIp (get_prop (location self) (js ''ip'')) (Some isString))
      else evt)"
  by (simp add: applyLocationContext_def with_bucket_def Let_def split_def)

lemma applyOperationContext_form:
  "applyOperationContext self evt =
     (if truthy (telemetryTrace self) then
        with_bucket evt strExt Undefined (\<lambda>ext. with_bucket ext TraceExt
            (Obj PlainObject [(js ''traceID'', Undefined), (js ''parentID'', Undefined)])
          (\<lambda>b. setValue (setValue (setValue b
                   (js ''traceID'') (get_prop (telemetryTrace self) (js ''traceID'')) (Some isString))
                   (js ''name'') (get_prop (telemetryTrace self) (js ''name'')) (Some isString))
                   (js ''parentID'') (get_prop (telemetryTrace self) (js ''parentID'')) (Some isString)))
      else evt)"
  by (simp add: applyOperationContext_def with_bucket_def Let_def split_def)

lemma applyWebContext_form:
  "applyWebContext self evt =
     (if truthy (web self) then
        with_bucket evt strExt Undefined (\<lambda>ext. setValue ext WebExt (web self) None)
      else evt)"
  by (simp add: applyWebContext_def with_bucket_def Let_def split_def)

lemma applyUserContext_form:
  "applyUserContext self evt =
     (if truthy (user self) then
        with_bucket
          (with_bucket evt strTags (Obj ArrayObject [])
             (\<lambda>tags. setValue tags userAccountId (get_prop (user self) (js ''accountId'')) (Some isString)))
          strExt Undefined (\<lambda>ext. with_bucket ext UserExt Undefined
            (\<lambda>b. setValue (setValue b
                     (js ''id'') (get_prop (user self) (js ''id'')) (Some isString))
                     (js ''authId'') (get_prop (user self) (js ''authenticatedId'')) (Some isString)))
      else evt)"
  by (simp add: applyUserContext_def with_bucket_def Let_def split_def)


lemma settles_applySessionContext: "settles (applySessionContext self)"
proof -
  have "settles (\<lambda>evt. with_held evt strExt (\<lambda>ext. with_bucket ext AppExt Undefined
       (\<lambda>app. setValue app (js ''sesId'') (getSessionId self) (Some isString))))"
    by (intro settles_with_held settles_with_bucket settles_setValue) simp
  then show ?thesis by (simp add: applySessionContext_form [abs_def])
qed

lemma settles_applyOperatingSystemContxt: "settles (applyOperatingSystemContxt self)"
proof -
  have "settles (\<lambda>evt. with_held evt strExt (\<lambda>ext. setValue ext OSExt (os self) None))"
    by (intro settles_with_held settles_setValue)
  then show ?thesis by (simp add: applyOperatingSystemContxt_form [abs_def])
qed

lemma settles_if: "settles g \<Longrightarrow> settles (\<lambda>b. if c then g b else b)"
  by (simp add: settles_def)

lemma settles_applyApplicationContext: "settles (applyApplicationContext self)"
  unfolding applyApplicationContext_form [abs_def]
  by (intro settles_if settles_with_bucket settles_chain2) (simp_all add: names)

lemma settles_applyDeviceContext: "settles (applyDeviceContext self)"
  unfolding applyDeviceContext_form [abs_def]
  by (intro settles_if settles_with_bucket settles_chain4) (simp_all add: names)

lemma settles_internal_tags: "settles (internal_tags dt self baseType)"
proof (cases "baseType = Str (InternalLogMessage_dataType dt) \<or> baseType = Str (PageView_dataType dt)")
  case True
  have "settles (\<lambda>tags. setValue (setValue (setValue (setValue tags
             internalAgentVersion (get_prop (internal self) (js ''agentVersion'')) (Some isString))
             internalSdkVersion (get_prop (internal self) (js ''sdkVersion'')) (Some isString))
             internalSnippet (get_prop (internal self) (js ''snippetVer'')) (Some isString))
             internalSdkSrc (get_prop (internal self) (js ''sdkSrc'')) (Some isString))"
    by (rule settles_chain4) (simp add: names)
  with True show ?thesis by (simp add: internal_tags_def [abs_def])
next
  case False
  have "settles (\<lambda>tags. setValue (setValue tags
             internalAgentVersion (get_prop (internal self) (js ''agentVersion'')) (Some isString))
             internalSdkVersion (get_prop (internal self) (js ''sdkVersion'')) (Some isString))"
    by (rule settles_chain2) (simp add: names)
  with False show ?thesis by (simp add: internal_tags_def [abs_def])
qed

lemma applyInternalContext_idem:
  "applyInternalContext dt self (applyInternalContext dt self evt) = applyInternalContext dt self evt"
proof (cases "truthy (internal self)")
  case False
  then show ?thesis by (simp add: applyInternalContext_form)
next
  case True
  define g where "g = internal_tags dt self (get_prop evt (js ''baseType''))"
  have fr: "get_prop (with_bucket evt strTags Undefined g) (js ''baseType'')
              = get_prop evt (js ''baseType'')"
    by (rule with_bucket_frame) (simp add: names)
  have "settles (\<lambda>t. with_bucket t strTags Undefined g)"
    unfolding g_def by (intro settles_with_bucket settles_internal_tags) simp
  then have "with_bucket (with_bucket evt strTags Undefined g) strTags Undefined g
               = with_bucket evt strTags Undefined g"
    by (simp add: settles_def)
  with True fr show ?thesis by (simp add: applyInternalContext_form g_def)
qed

lemma settles_applyLocationContext: "settles (applyLocationContext self)"
  unfolding applyLocationContext_form [abs_def]
  by (intro settles_if settles_with_bucket settles_setValue) simp

lemma settles_applyOperationContext: "settles (applyOperationContext self)"
  unfolding applyOperationContext_form [abs_def]
  by (intro settles_if settles_with_bucket settles_chain3) (simp_all add: names)

lemma settles_applyWebContext: "settles (applyWebContext self)"
  unfolding applyWebContext_form [abs_def]
  by (intro settles_if settles_with_bucket settles_setValue) simp

lemma applyUserContext_idem:
  "applyUserContext self (applyUserContext self evt) = applyUserContext self evt"
proof (cases "truthy (user self)")
  case False
  then show ?thesis by (simp add: applyUserContext_form)
next
  case True
  define g1 where "g1 = (\<lambda>tags. setValue tags userAccountId (get_prop (user self) (js ''accountId''))
                                  (Some isString))"
  define g2 where "g2 = (\<lambda>ext. with_bucket ext UserExt Undefined
            (\<lambda>b. setValue (setValue b
                     (js ''id'') (get_prop (user self) (js ''id'')) (Some isString))
                     (js ''authId'') (get_prop (user self) (js ''authenticatedId'')) (Some isString)))"
  define F1 where "F1 = (\<lambda>e. with_bucket e strTags (Obj ArrayObject []) g1)"
  define F2 where "F2 = (\<lambda>e. with_bucket e strExt Undefined g2)"
  have form: "applyUserContext self e = F2 (F1 e)" for e
    using True by (simp add: applyUserContext_form F1_def F2_def g1_def g2_def)
  have s1: "settles g1" unfolding g1_def by (rule settles_setValue)
  have s2: "settles g2" unfolding g2_def
    by (intro settles_with_bucket settles_chain2) (simp_all add: names)
  have S2: "settles F2" unfolding F2_def by (intro settles_with_bucket s2) simp
  have "F2 (F1 (F2 (F1 evt))) = F2 (F1 evt)"
  proof (cases "is_obj evt")
    case False
    then show ?thesis by (simp add: F1_def F2_def with_bucket_prim)
  next
    case obj: True
    have est: "\<not> isNullOrUndefined (get_prop (F1 evt) strTags)
               \<and> g1 (get_prop (F1 evt) strTags) = get_prop (F1 evt) strTags"
      unfolding F1_def by (rule with_bucket_established [OF obj s1]) simp
    have fr: "get_prop (F2 (F1 evt)) strTags = get_prop (F1 evt) strTags"
      unfolding F2_def by (rule with_bucket_frame) (simp add: names)
    define y where "y = F2 (F1 evt)"
    have "with_bucket y strTags (Obj ArrayObject []) g1 = y"
      using est fr unfolding y_def [symmetric] by (intro with_bucket_fix) simp_all
    then have "F1 y = y" by (simp add: F1_def)
    moreover have "F2 y = y" using S2 by (simp add: settles_def y_def)
    ultimately show ?thesis by (simp add: y_def)
  qed
  then show ?thesis by (simp add: form)
qed

text \<open>
  Claim C8. For every apply operation, every telemetry item and a fixed state of the
  providers, running the operation twice on the item gives the item that running it once
  gives.
\<close>

theorem apply_op_idempotent:
  "apply_op dt self op (apply_op dt self op evt) = apply_op dt self op evt"
proof (cases op)
  case SessionContext
  then show ?thesis using settles_applySessionContext [of self] by (simp add: settles_def)
next
  case OperatingSystemContxt
  then show ?thesis using settles_applyOperatingSystemContxt [of self] by (simp add: settles_def)
next
  case ApplicationContext
  then show ?thesis using settles_applyApplicationContext [of self] by (simp add: settles_def)
next
  case DeviceContext
  then show ?thesis using settles_applyDeviceContext [of self] by (simp add: settles_def)
next
  case InternalContext
  then show ?thesis by (simp add: applyInternalContext_idem)
next
  case LocationContext
  then show ?thesis using settles_applyLocationContext [of self] by (simp add: settles_def)
next
  case OperationContext
  then show ?thesis using settles_applyOperationContext [of self] by (simp add: settles_def)
next
  case WebContext
  then show ?thesis using settles_applyWebContext [of self] by (simp add: settles_def)
next
  case UserContext
  then show ?thesis by (simp add: applyUserContext_idem)
qed


theorem apply_op_idempotent_witness:
  "apply_op example_dataTypes session_and_device DeviceContext
     (Obj PlainObject [(js ''ext'', Obj PlainObject
            [(js ''device'', Obj PlainObject [(js ''localId'', Str (js ''d1''))])])])
   = Obj PlainObject [(js ''ext'', Obj PlainObject
            [(js ''device'', Obj PlainObject [(js ''localId'', Str (js ''d1''))])])]"
proof -
  have "apply_op example_dataTypes session_and_device DeviceContext (Obj PlainObject [])
     = Obj PlainObject [(js ''ext'', Obj PlainObject
            [(js ''device'', Obj PlainObject [(js ''localId'', Str (js ''d1''))])])]"
    by code_simp
  with apply_op_idempotent [of example_dataTypes session_and_device DeviceContext "Obj PlainObject []"]
  show ?thesis by simp
qed

section \<open>Sequences and the session id\<close>

lemma js_array_Nil: "js_array [] = Obj ArrayObject []"
  by (simp add: js_array_def)

lemma js_array_Cons: "\<exists>ps. js_array (x # xs) = Obj ArrayObject ((js ''0'', x) # ps)"
  by (simp add: js_array_def upt_conv_Cons js_zero del: upt_Suc)

lemma parseRequestId_empty: "parseRequestId (Str []) = None"
  by (simp add: parseRequestId_def)

text \<open>
  Claim C9. Given a sequence of strings, \<^verbatim>\<open>_parseRequestId\<close> does what it does on
  the first string of the sequence, and an empty sequence gives none.
\<close>

theorem parseRequestId_array:
  "parseRequestId (js_array (map Str xs)) =
     (case xs of [] \<Rightarrow> None | x # rest \<Rightarrow> parseRequestId (Str x))"
proof (cases xs)
  case Nil
  then show ?thesis by (simp add: js_array_Nil parseRequestId_def)
next
  case (Cons x rest)
  obtain ps where a: "js_array (Str x # map Str rest) = Obj ArrayObject ((js ''0'', Str x) # ps)"
    using js_array_Cons by blast
  show ?thesis
  proof (cases "x = []")
    case True
    with Cons a show ?thesis by (simp add: parseRequestId_empty) (simp add: parseRequestId_def)
  next
    case False
    with Cons a show ?thesis by (simp add: parseRequestId_def)
  qed
qed



theorem parseRequestId_array_witness:
  "parseRequestId (js_array [Str (js ''|4bf92f3577b34da6a3ce929d0e0e4736.00f067aa0ba902b7''),
                             Str (js ''|0af7651916cd43dd8448eb211c80319c.b7ad6b7169203331'')])
     = Some \<lparr>traceId = js ''4bf92f3577b34da6a3ce929d0e0e4736'', spanId = js ''00f067aa0ba902b7''\<rparr>
   \<and> parseRequestId (js_array []) = None"
proof -
  have "parseRequestId (js_array (map Str [js ''|4bf92f3577b34da6a3ce929d0e0e4736.00f067aa0ba902b7'',
          js ''|0af7651916cd43dd8448eb211c80319c.b7ad6b7169203331'']))
        = parseRequestId (Str (js ''|4bf92f3577b34da6a3ce929d0e0e4736.00f067aa0ba902b7''))"
    by (simp only: parseRequestId_array list.case)
  moreover have "parseRequestId (Str (js ''|4bf92f3577b34da6a3ce929d0e0e4736.00f067aa0ba902b7''))
     = Some \<lparr>traceId = js ''4bf92f3577b34da6a3ce929d0e0e4736'', spanId = js ''00f067aa0ba902b7''\<rparr>"
    by code_simp
  moreover have "parseRequestId (js_array (map Str [])) = None"
    by (simp only: parseRequestId_array list.case)
  ultimately show ?thesis by simp
qed

text \<open>
  Claim C5. \<^verbatim>\<open>getSessionId\<close> returns the id of the session provider whenever that
  provider is present and its id is a string, whatever the session manager holds;
  otherwise the id of the automatic session when the session manager is present and that
  id is a string; otherwise \<^verbatim>\<open>null\<close>.
\<close>

theorem getSessionId_policy:
  "getSessionId self =
     (if truthy (session self) \<and> isString (get_prop (session self) (js ''id''))
      then get_prop (session self) (js ''id'')
      else if truthy (sessionManager self)
              \<and> truthy (get_prop (sessionManager self) (js ''automaticSession''))
              \<and> isString (get_prop (get_prop (sessionManager self) (js ''automaticSession'')) (js ''id''))
      then get_prop (get_prop (sessionManager self) (js ''automaticSession'')) (js ''id'')
      else Null)"
  by (simp add: getSessionId_def Let_def)

theorem getSessionId_policy_witness:
  "getSessionId (no_providers\<lparr>session := Obj PlainObject [(js ''id'', Str (js ''s1''))],
       sessionManager := Obj PlainObject [(js ''automaticSession'',
                            Obj PlainObject [(js ''id'', Str (js ''a1''))])]\<rparr>) = Str (js ''s1'')
   \<and> getSessionId (no_providers\<lparr>session := Obj PlainObject [],
       sessionManager := Obj PlainObject [(js ''automaticSession'',
                            Obj PlainObject [(js ''id'', Str (js ''a1''))])]\<rparr>) = Str (js ''a1'')
   \<and> getSessionId no_providers = Null"
proof -
  show ?thesis
    by (simp only: getSessionId_policy) code_simp
qed

section \<open>What cleanUp removes\<close>

lemma get_delete: "get_prop (delete_prop t n) m = (if m = n then Undefined else get_prop t m)"
  by (cases t) (simp_all add: delete_conv')

lemma truthy_delete: "truthy (delete_prop t n) = truthy t"
  by (cases t) simp_all

lemma objKeys_delete:
  "objKeys (delete_prop t n) = (if is_obj t then removeAll n (objKeys t) else objKeys t)"
  by (cases t) (simp_all add: delete_keys)

lemma empty_object_Undefined: "\<not> empty_object Undefined"
  by (simp add: empty_object_def)

lemma removeEmpty_cases:
  "removeEmpty t n = (if empty_object (get_prop t n) then delete_prop t n else t)"
proof (cases "is_obj t")
  case True
  then show ?thesis by (auto simp: removeEmpty_def empty_object_def is_obj_truthy)
next
  case False
  then show ?thesis by (auto simp: removeEmpty_def empty_object_def get_prim)
qed

lemma get_removeEmpty:
  "get_prop (removeEmpty t n) m =
     (if m = n \<and> empty_object (get_prop t n) then Undefined else get_prop t m)"
  by (simp add: removeEmpty_cases get_delete)

lemma truthy_removeEmpty: "truthy (removeEmpty t n) = truthy t"
  by (simp add: removeEmpty_cases truthy_delete)

lemma objKeys_removeEmpty:
  "objKeys (removeEmpty t n) =
     (if empty_object (get_prop t n) then removeAll n (objKeys t) else objKeys t)"
  by (auto simp: removeEmpty_cases objKeys_delete get_prim empty_object_Undefined)

lemma get_fold_removeEmpty:
  "get_prop (fold (\<lambda>n t. removeEmpty t n) ns t) m =
     (if m \<in> set ns \<and> empty_object (get_prop t m) then Undefined else get_prop t m)"
  by (induction ns arbitrary: t) (auto simp: get_removeEmpty empty_object_Undefined)

lemma truthy_fold_removeEmpty: "truthy (fold (\<lambda>n t. removeEmpty t n) ns t) = truthy t"
  by (induction ns arbitrary: t) (simp_all add: truthy_removeEmpty)

lemma objKeys_fold_removeEmpty:
  "set (objKeys (fold (\<lambda>n t. removeEmpty t n) ns t)) =
     set (objKeys t) - {n \<in> set ns. empty_object (get_prop t n)}"
  by (induction ns arbitrary: t)
     (auto simp: objKeys_removeEmpty get_removeEmpty empty_object_Undefined)

lemma pruned_fold: "pruned ext = fold (\<lambda>n t. removeEmpty t n) named_buckets ext"
  by (simp add: pruned_def named_buckets_def)

lemma get_pruned:
  "get_prop (pruned ext) m =
     (if m \<in> set named_buckets \<and> empty_object (get_prop ext m) then Undefined else get_prop ext m)"
  by (simp only: pruned_fold get_fold_removeEmpty)

lemma truthy_pruned: "truthy (pruned ext) = truthy ext"
  by (simp only: pruned_fold truthy_fold_removeEmpty)

lemma objKeys_pruned:
  "set (objKeys (pruned ext)) =
     set (objKeys ext) - {n \<in> set named_buckets. empty_object (get_prop ext n)}"
  by (simp only: pruned_fold objKeys_fold_removeEmpty)

lemma cleanUp_cases:
  "cleanUp evt = (if truthy (get_prop evt strExt) then put_prop evt strExt (pruned (get_prop evt strExt)) else evt)"
  using truthy_pruned [of "get_prop evt strExt"]
  by (simp add: cleanUp_def Let_def write_back_def pruned_def)

lemma truthy_get_is_obj: "truthy (get_prop t f) \<Longrightarrow> is_obj t"
  by (cases t) simp_all

lemma cleanUp_ext:
  "get_prop (cleanUp evt) strExt = pruned (get_prop evt strExt)"
proof (cases "truthy (get_prop evt strExt)")
  case True
  then show ?thesis by (simp add: cleanUp_cases get_put_same truthy_get_is_obj)
next
  case False
  then have "pruned (get_prop evt strExt) = get_prop evt strExt"
    using is_obj_truthy by (auto simp: pruned_def removeEmpty_def)
  with False show ?thesis by (simp add: cleanUp_cases)
qed

lemma cleanUp_other: "name \<noteq> strExt \<Longrightarrow> get_prop (cleanUp evt) name = get_prop evt name"
  by (simp add: cleanUp_cases get_put_other)

lemma objKeys_put_present:
  "get_prop t f \<noteq> Undefined \<Longrightarrow> objKeys (put_prop t f v) = objKeys t"
proof (cases t)
  case (Obj k ps)
  assume "get_prop t f \<noteq> Undefined"
  with Obj obtain x where "map_of ps f = Some x" by (auto split: option.splits)
  then have "f \<in> fst ` set ps" by (force dest: map_of_SomeD)
  with Obj show ?thesis by (simp add: update_keys)
qed simp_all

lemma cleanUp_keys: "objKeys (cleanUp evt) = objKeys evt"
proof (cases "truthy (get_prop evt strExt)")
  case True
  then have "get_prop evt strExt \<noteq> Undefined" by auto
  with True show ?thesis by (simp add: cleanUp_cases objKeys_put_present)
next
  case False
  then show ?thesis by (simp add: cleanUp_cases)
qed

text \<open>
  Claim C10. \<^verbatim>\<open>cleanUp\<close> changes nothing when the item has no \<^verbatim>\<open>ext\<close>; it keeps
  the keys of the item and every property but \<^verbatim>\<open>ext\<close>, \<^verbatim>\<open>tags\<close> among them; in
  \<^verbatim>\<open>ext\<close> it removes exactly the named buckets (device, user, web, os, app, trace)
  that are objects with zero own keys, and leaves every other key and every other value
  as it was.
\<close>

theorem cleanUp_frame:
  "(\<not> truthy (get_prop evt strExt) \<longrightarrow> cleanUp evt = evt)
   \<and> objKeys (cleanUp evt) = objKeys evt
   \<and> (name \<noteq> strExt \<longrightarrow> get_prop (cleanUp evt) name = get_prop evt name)
   \<and> get_prop (cleanUp evt) strTags = get_prop evt strTags
   \<and> get_prop (get_prop (cleanUp evt) strExt) name =
       (if name \<in> set named_buckets \<and> empty_object (get_prop (get_prop evt strExt) name)
        then Undefined else get_prop (get_prop evt strExt) name)
   \<and> set (objKeys (get_prop (cleanUp evt) strExt)) =
       set (objKeys (get_prop evt strExt))
         - {n \<in> set named_buckets. empty_object (get_prop (get_prop evt strExt) n)}"
proof -
  have "strTags \<noteq> strExt" by (simp add: names)
  moreover have "\<not> truthy (get_prop evt strExt) \<longrightarrow> cleanUp evt = evt"
    by (simp add: cleanUp_cases)
  ultimately show ?thesis
    by (simp add: cleanUp_ext cleanUp_other cleanUp_keys get_pruned objKeys_pruned)
qed

theorem cleanUp_frame_witness:
  "cleanUp (Obj PlainObject [(js ''tags'', Obj PlainObject [])]) = Obj PlainObject [(js ''tags'', Obj PlainObject [])]
   \<and> get_prop (get_prop (cleanUp item_with_sdk) strExt) (js ''sdk'') = Obj PlainObject []
   \<and> get_prop (get_prop (cleanUp (Obj PlainObject [(js ''ext'', Obj PlainObject
          [(js ''app'', Obj PlainObject []), (js ''user'', Obj PlainObject [(js ''id'', Str (js ''u1''))])])]))
        strExt) AppExt = Undefined"
proof -
  have a: "\<not> truthy (get_prop (Obj PlainObject [(js ''tags'', Obj PlainObject [])]) strExt)"
    by code_simp
  have b: "\<not> (js ''sdk'' \<in> set named_buckets \<and> empty_object (get_prop (get_prop item_with_sdk strExt) (js ''sdk'')))"
    by code_simp
  have b': "get_prop (get_prop item_with_sdk strExt) (js ''sdk'') = Obj PlainObject []"
    by code_simp
  have c: "AppExt \<in> set named_buckets \<and> empty_object (get_prop (get_prop (Obj PlainObject [(js ''ext'', Obj PlainObject
          [(js ''app'', Obj PlainObject []), (js ''user'', Obj PlainObject [(js ''id'', Str (js ''u1''))])])]) strExt) AppExt)"
    by code_simp
  show ?thesis
    using cleanUp_frame [of "Obj PlainObject [(js ''tags'', Obj PlainObject [])]" "js ''sdk''"]
      cleanUp_frame [of item_with_sdk "js ''sdk''"]
      cleanUp_frame [of "Obj PlainObject [(js ''ext'', Obj PlainObject
          [(js ''app'', Obj PlainObject []), (js ''user'', Obj PlainObject [(js ''id'', Str (js ''u1''))])])]" AppExt]
      a b b' c
    by simp
qed

text \<open>
  Claim C4, amended. After any sequence of apply operations followed by \<^verbatim>\<open>cleanUp\<close>,
  none of the six named buckets (device, user, web, os, app, trace) of \<^verbatim>\<open>ext\<close> is an
  object with zero own keys: a named bucket that is retained has at least one own key.
\<close>

theorem cleanUp_named_buckets:
  "n \<in> set named_buckets \<Longrightarrow>
     \<not> empty_object (get_prop (get_prop (cleanUp (apply_ops dt self ops evt)) strExt) n)"
  by (simp add: cleanUp_ext get_pruned empty_object_Undefined)

theorem cleanUp_named_buckets_witness:
  "\<not> empty_object (get_prop (get_prop
       (cleanUp (apply_ops example_dataTypes session_and_device [DeviceContext, SessionContext]
                   item_with_sdk)) strExt) AppExt)
   \<and> \<not> empty_object (get_prop (get_prop
       (cleanUp (apply_ops example_dataTypes no_providers [SessionContext] item_with_sdk))
       strExt) AppExt)"
proof -
  have n: "AppExt \<in> set named_buckets" by (simp add: named_buckets_def)
  show ?thesis
    using cleanUp_named_buckets [OF n, of example_dataTypes session_and_device
            "[DeviceContext, SessionContext]" item_with_sdk]
      cleanUp_named_buckets [OF n, of example_dataTypes no_providers "[SessionContext]" item_with_sdk]
    by simp
qed

text \<open>
  Claim C4 as stated fails. \<^verbatim>\<open>cleanUp\<close> prunes the six named buckets only: an item
  whose \<^verbatim>\<open>ext\<close> holds an empty \<^verbatim>\<open>sdk\<close> bucket keeps it. And the \<^verbatim>\<open>trace\<close>
  bucket that \<^verbatim>\<open>applyOperationContext\<close> creates owns the keys \<^verbatim>\<open>traceID\<close> and
  \<^verbatim>\<open>parentID\<close> from the start: it is retained although neither holds a value.
\<close>

theorem cleanUp_keeps_empty_object:
  "cleanUp (apply_ops example_dataTypes trace_without_ids [OperationContext] item_with_sdk)
     = Obj PlainObject [(js ''ext'', Obj PlainObject
         [(js ''sdk'', Obj PlainObject []),
          (js ''trace'', Obj PlainObject [(js ''traceID'', Undefined), (js ''parentID'', Undefined)])])]
   \<and> empty_object (get_prop (get_prop
         (cleanUp (apply_ops example_dataTypes trace_without_ids [OperationContext] item_with_sdk))
         (js ''ext'')) (js ''sdk''))"
  by code_simp


section \<open>The order of the search\<close>

lemma findRequestId_tokens:
  "findRequestId env =
     (case document_token env of
        Some tp \<Rightarrow> (Some tp, [CallGetDocument])
      | None \<Rightarrow> (performance_token env, [CallGetDocument, CallGetPerformance]))"
  by (auto simp: findRequestId_def document_token_def performance_token_def Let_def
      getRequestIdValue_def parseRequestId_def
      split: option.splits list.splits)

lemma getRequestIdValue_first:
  assumes "get_prop (Obj PlainObject m) (js ''name'') = Str (js ''Request-Id'')"
    and "\<forall>e \<in> set pre. get_prop (Obj PlainObject e) (js ''name'') \<noteq> Str (js ''Request-Id'')"
  shows "getRequestIdValue (Some (pre @ m # post)) = Obj PlainObject m"
  using assms by (induction pre) (auto simp: getRequestIdValue_def js_def)

text \<open>
  Claim C2, amended. The search asks the W3C carrier, then the document, then the server
  timing of the first navigation entry, in this order; the first source that gives a
  valid token wins and the sources after it are not asked. Within a source the first
  element named \<^verbatim>\<open>Request-Id\<close> is the only one whose value is parsed, whatever
  follows it.
\<close>

theorem discover_order:
  "discover env =
     (case findW3cTraceParent env of
        Some tp \<Rightarrow> (Some tp, [CallFindW3cTraceParent])
      | None \<Rightarrow>
          (case document_token env of
             Some tp \<Rightarrow> (Some tp, [CallFindW3cTraceParent, CallGetDocument])
           | None \<Rightarrow> (performance_token env,
                       [CallFindW3cTraceParent, CallGetDocument, CallGetPerformance])))
   \<and> (get_prop (Obj PlainObject m) (js ''name'') = Str (js ''Request-Id'')
        \<and> (\<forall>e \<in> set pre. get_prop (Obj PlainObject e) (js ''name'') \<noteq> Str (js ''Request-Id''))
       \<longrightarrow> getRequestIdValue (Some (pre @ m # post)) = Obj PlainObject m)"
  by (auto simp: discover_def findRequestId_tokens getRequestIdValue_first split: option.splits)

theorem discover_order_witness:
  "discover page_request_id = (Some example_traceParent, [CallFindW3cTraceParent, CallGetDocument])
   \<and> getRequestIdValue (Some ([meta_viewport] @ meta_valid # [meta_garbage])) = Obj PlainObject meta_valid"
proof -
  have n: "get_prop (Obj PlainObject meta_valid) (js ''name'') = Str (js ''Request-Id'')"
    by code_simp
  have p: "\<forall>e \<in> set [meta_viewport]. get_prop (Obj PlainObject e) (js ''name'') \<noteq> Str (js ''Request-Id'')"
    by code_simp
  have w: "findW3cTraceParent page_request_id = None" by code_simp
  have d: "document_token page_request_id = Some example_traceParent" by code_simp
  from discover_order [of page_request_id meta_valid "[meta_viewport]" "[meta_garbage]"] n p w d
  show ?thesis by simp
qed

text \<open>
  Claim C2 as stated fails: of two elements named \<^verbatim>\<open>Request-Id\<close> only the first is
  consulted. When its value is not a valid token the document is given up, although the
  second element holds a valid one.
\<close>

theorem discover_first_candidate_only:
  "get_prop (Obj PlainObject meta_valid) (js ''name'') = Str (js ''Request-Id'')
   \<and> parseRequestId (get_prop (Obj PlainObject meta_valid) (js ''content'')) = Some example_traceParent
   \<and> getDocument page_two_request_ids
        = Some \<lparr>querySelectorAll_meta = [meta_viewport, meta_garbage, meta_valid]\<rparr>
   \<and> discover page_two_request_ids
        = (None, [CallFindW3cTraceParent, CallGetDocument, CallGetPerformance])"
  by code_simp

section \<open>Construction\<close>

lemma discover_probes:
  "snd (discover env) = [CallFindW3cTraceParent]
   \<or> snd (discover env) = [CallFindW3cTraceParent, CallGetDocument]
   \<or> snd (discover env) = [CallFindW3cTraceParent, CallGetDocument, CallGetPerformance]"
  by (auto simp: discover_def findRequestId_tokens split: option.splits)

lemma discover_once: "count_list (snd (discover env)) CallFindW3cTraceParent = 1"
  using discover_probes [of env] by auto

text \<open>
  Claim C3, amended. At construction in an environment with a window, if
  \<^verbatim>\<open>disableTraceParent()\<close> is false the search runs exactly once and, when it finds a
  trace parent, only the span id found becomes the parent id of the new operation
  identity; the trace id found is never propagated, and the operation's own trace id is
  generated by the identity provider independently of the search: the provider is called
  with no id, and two environments whose searches find the same span id give the same
  context, whatever trace ids they find. If \<^verbatim>\<open>disableTraceParent()\<close> is true the
  search does not run and the parent id is left \<^verbatim>\<open>undefined\<close>. Without a window the
  search does not run and no operation identity is built.
\<close>

theorem construct_trace_parent:
  "snd (construct new env cfg)
     = (if hasWindow env \<and> \<not> disableTraceParent cfg then snd (discover env) else [])
   \<and> count_list (snd (construct new env cfg)) CallFindW3cTraceParent
        = (if hasWindow env \<and> \<not> disableTraceParent cfg then 1 else 0)
   \<and> telemetryTrace (fst (construct new env cfg))
        = (if hasWindow env
           then new_TelemetryTrace new Undefined
                  (if disableTraceParent cfg then Undefined
                   else case fst (discover env) of Some tp \<Rightarrow> Str (spanId tp) | None \<Rightarrow> Undefined)
                  Undefined
           else Undefined)
   \<and> (hasWindow env \<and> hasWindow env'
        \<and> map_option spanId (fst (discover env')) = map_option spanId (fst (discover env))
        \<longrightarrow> fst (construct new env' cfg) = fst (construct new env cfg))"
proof -
  have pr: "snd (construct new env cfg)
     = (if hasWindow env \<and> \<not> disableTraceParent cfg then snd (discover env) else [])"
    by (simp add: construct_def Let_def split_def)
  have tt: "telemetryTrace (fst (construct new env cfg))
        = (if hasWindow env
           then new_TelemetryTrace new Undefined
                  (if disableTraceParent cfg then Undefined
                   else case fst (discover env) of Some tp \<Rightarrow> Str (spanId tp) | None \<Rightarrow> Undefined)
                  Undefined
           else Undefined)"
    by (simp add: construct_def Let_def split_def)
  have same: "hasWindow env \<and> hasWindow env'
        \<and> map_option spanId (fst (discover env')) = map_option spanId (fst (discover env))
        \<longrightarrow> fst (construct new env' cfg) = fst (construct new env cfg)"
    by (auto simp: construct_def Let_def split_def split: option.splits)
  have cnt: "count_list (snd (construct new env cfg)) CallFindW3cTraceParent
        = (if hasWindow env \<and> \<not> disableTraceParent cfg then 1 else 0)"
    using discover_once [of env] by (simp add: pr)
  from pr tt same cnt show ?thesis by blast
qed

theorem construct_trace_parent_witness:
  "snd (construct example_providers page_request_id trace_parent_enabled)
      = [CallFindW3cTraceParent, CallGetDocument]
   \<and> get_prop (telemetryTrace (fst (construct example_providers page_request_id trace_parent_enabled)))
        (js ''parentID'') = Str (js ''00f067aa0ba902b7'')
   \<and> get_prop (telemetryTrace (fst (construct example_providers page_request_id trace_parent_enabled)))
        (js ''traceID'') = Str (js ''generated'')
   \<and> snd (construct example_providers worker trace_parent_enabled) = []
   \<and> telemetryTrace (fst (construct example_providers worker trace_parent_enabled)) = Undefined"
proof -
  have h: "hasWindow page_request_id" by code_simp
  have d: "discover page_request_id = (Some example_traceParent, [CallFindW3cTraceParent, CallGetDocument])"
    by code_simp
  have c: "\<not> disableTraceParent trace_parent_enabled" by code_simp
  have n: "\<not> hasWindow worker" by code_simp
  note P = construct_trace_parent [of example_providers page_request_id trace_parent_enabled]
  note W = construct_trace_parent [of example_providers worker trace_parent_enabled]
  have p1: "snd (construct example_providers page_request_id trace_parent_enabled)
      = [CallFindW3cTraceParent, CallGetDocument]"
    using P [THEN conjunct1] by (simp only: h c d simp_thms if_True snd_conv)
  have p2: "telemetryTrace (fst (construct example_providers page_request_id trace_parent_enabled))
      = new_TelemetryTrace example_providers Undefined (Str (spanId example_traceParent)) Undefined"
    using P [THEN conjunct2, THEN conjunct2, THEN conjunct1]
    by (simp only: h c d simp_thms if_True if_False fst_conv option.case)
  have e1: "get_prop (new_TelemetryTrace example_providers Undefined
               (Str (spanId example_traceParent)) Undefined) (js ''parentID'')
             = Str (js ''00f067aa0ba902b7'')"
    by code_simp
  have e2: "get_prop (new_TelemetryTrace example_providers Undefined
               (Str (spanId example_traceParent)) Undefined) (js ''traceID'')
             = Str (js ''generated'')"
    by code_simp
  have w1: "snd (construct example_providers worker trace_parent_enabled) = []"
    using W [THEN conjunct1] by (simp only: n simp_thms if_False)
  have w2: "telemetryTrace (fst (construct example_providers worker trace_parent_enabled)) = Undefined"
    using W [THEN conjunct2, THEN conjunct2, THEN conjunct1] by (simp only: n if_False)
  show ?thesis
    by (simp only: p1 p2 e1 e2 w1 w2 simp_thms)
qed

text \<open>
  Claim C3 as stated fails without a window: \<^verbatim>\<open>disableTraceParent()\<close> is false and
  the W3C carrier holds a trace parent, yet the constructor makes no call to its
  environment and builds no operation identity.
\<close>

theorem construct_without_window:
  "\<not> hasWindow worker_with_carrier \<and> \<not> disableTraceParent trace_parent_enabled
   \<and> fst (discover worker_with_carrier) = Some example_traceParent
   \<and> snd (construct example_providers worker_with_carrier trace_parent_enabled) = []
   \<and> telemetryTrace (fst (construct example_providers worker_with_carrier trace_parent_enabled))
        = Undefined"
  by code_simp

section \<open>An item without ext\<close>

text \<open>
  Claim C6 at an item with no \<^verbatim>\<open>ext\<close>. \<^verbatim>\<open>applySessionContext\<close> and
  \<^verbatim>\<open>applyOperatingSystemContxt\<close> read \<^verbatim>\<open>evt.ext\<close> where the other operations call
  \<^verbatim>\<open>getSetValue(evt, strExt)\<close>: a session id is available and nothing is written,
  while on the same item \<^verbatim>\<open>applyDeviceContext\<close> and \<^verbatim>\<open>applyWebContext\<close> create
  \<^verbatim>\<open>ext\<close> and their bucket.
\<close>

theorem applySessionContext_no_ext:
  "getSessionId session_and_device = Str (js ''s1'')
   \<and> applySessionContext session_and_device (Obj PlainObject []) = Obj PlainObject []
   \<and> applyOperatingSystemContxt session_and_device (Obj PlainObject []) = Obj PlainObject []
   \<and> applySessionContext session_and_device (Obj PlainObject [(js ''ext'', Obj PlainObject [])])
        = Obj PlainObject [(js ''ext'', Obj PlainObject
            [(js ''app'', Obj PlainObject [(js ''sesId'', Str (js ''s1''))])])]
   \<and> applyDeviceContext session_and_device (Obj PlainObject [])
        = Obj PlainObject [(js ''ext'', Obj PlainObject
            [(js ''device'', Obj PlainObject [(js ''localId'', Str (js ''d1''))])])]
   \<and> applyWebContext session_and_device (Obj PlainObject [])
        = Obj PlainObject [(js ''ext'', Obj PlainObject
            [(js ''web'', Obj PlainObject [(js ''domain'', Str (js ''example.org''))])])]"
  by code_simp

section \<open>Without a window\<close>

lemma setValue_not_string: "\<not> isString v \<Longrightarrow> setValue b f v (Some isString) = b"
  by (simp add: setValue_isString)

lemma applySessionContext_no_id:
  assumes "getSessionId self = Null"
  shows "applySessionContext self evt =
     (if is_obj (get_prop evt strExt) \<and> isNullOrUndefined (get_prop (get_prop evt strExt) AppExt)
      then put_prop evt strExt (put_prop (get_prop evt strExt) AppExt (Obj PlainObject []))
      else evt)"
proof -
  define ext where "ext = get_prop evt strExt"
  have form: "applySessionContext self evt =
      write_back evt strExt (with_bucket ext AppExt Undefined (\<lambda>app. app))"
    using assms
    by (simp add: applySessionContext_form with_held_def setValue_not_string ext_def)
  show ?thesis
  proof (cases "is_obj ext")
    case False
    then have "with_bucket ext AppExt Undefined (\<lambda>app. app) = ext" by (rule with_bucket_prim)
    moreover have "write_back evt strExt ext = evt"
      by (cases "ext = Undefined") (auto simp: write_back_def ext_def put_get_id)
    ultimately show ?thesis using False form by (simp add: ext_def)
  next
    case obj: True
    then have ne: "ext \<noteq> Undefined" by auto
    show ?thesis
    proof (cases "isNullOrUndefined (get_prop ext AppExt)")
      case True
      then have "with_bucket ext AppExt Undefined (\<lambda>app. app)
                   = put_prop ext AppExt (Obj PlainObject [])"
        using obj truthy_defined [of "get_prop ext AppExt"]
        by (auto simp: with_bucket_def getSetValue_def write_back_def Let_def is_obj_truthy
            put_put_same)
      with True obj form show ?thesis
        by (simp add: write_back_def truthy_put is_obj_truthy ext_def)
    next
      case False
      then have "with_bucket ext AppExt Undefined (\<lambda>app. app) = ext"
        by (intro with_bucket_fix) simp_all
      moreover have "write_back evt strExt ext = evt"
        using ne by (auto simp: write_back_def ext_def put_get_id)
      ultimately show ?thesis using False form by (simp add: ext_def)
    qed
  qed
qed

lemma applyOperatingSystemContxt_unset:
  assumes "os self = Undefined" "get_prop (get_prop evt strExt) OSExt = Undefined"
  shows "applyOperatingSystemContxt self evt = evt"
proof -
  have "setValue (get_prop evt strExt) OSExt Undefined None = get_prop evt strExt"
    using assms(2) by (simp add: setValue_def)
  moreover have "write_back evt strExt (get_prop evt strExt) = evt"
    by (cases "get_prop evt strExt = Undefined") (auto simp: write_back_def put_get_id)
  ultimately show ?thesis
    using assms(1) by (simp add: applyOperatingSystemContxt_def Let_def)
qed

text \<open>
  Claim C7, amended. In an environment without a window, where \<^verbatim>\<open>sessionManager\<close>,
  \<^verbatim>\<open>device\<close>, \<^verbatim>\<open>location\<close>, \<^verbatim>\<open>user\<close>, \<^verbatim>\<open>session\<close> and \<^verbatim>\<open>telemetryTrace\<close>
  remain unset, the operations of the providers that stay unset (device, location,
  operation, user, and web, which the constructor never sets) leave every item as it is.
  \<^verbatim>\<open>applyOperatingSystemContxt\<close> leaves as it is every item whose \<^verbatim>\<open>ext\<close> holds no
  \<^verbatim>\<open>os\<close> value. No session id is found, and \<^verbatim>\<open>applySessionContext\<close> writes none: it
  attaches an empty \<^verbatim>\<open>app\<close> bucket to an \<^verbatim>\<open>ext\<close> object that has none and changes
  nothing else.
\<close>

theorem apply_unset_provider_noop:
  assumes "\<not> hasWindow env"
  shows "(op \<in> {DeviceContext, LocationContext, OperationContext, WebContext, UserContext}
          \<longrightarrow> apply_op dt (fst (construct new env cfg)) op evt = evt)
   \<and> (get_prop (get_prop evt strExt) OSExt = Undefined
        \<longrightarrow> apply_op dt (fst (construct new env cfg)) OperatingSystemContxt evt = evt)
   \<and> getSessionId (fst (construct new env cfg)) = Null
   \<and> apply_op dt (fst (construct new env cfg)) SessionContext evt
        = (if is_obj (get_prop evt strExt) \<and> isNullOrUndefined (get_prop (get_prop evt strExt) AppExt)
           then put_prop evt strExt (put_prop (get_prop evt strExt) AppExt (Obj PlainObject []))
           else evt)"
proof -
  define self where "self = fst (construct new env cfg)"
  have unset: "device self = Undefined" "location self = Undefined"
    "telemetryTrace self = Undefined" "user self = Undefined" "web self = Undefined"
    "os self = Undefined" "session self = Undefined" "sessionManager self = Undefined"
    using assms by (simp_all add: self_def construct_def Let_def)
  have five: "op \<in> {DeviceContext, LocationContext, OperationContext, WebContext, UserContext}
          \<longrightarrow> apply_op dt self op evt = evt"
    using unset
    by (auto simp: applyDeviceContext_def applyLocationContext_def applyOperationContext_def
        applyWebContext_def applyUserContext_def)
  have opsys: "get_prop (get_prop evt strExt) OSExt = Undefined
        \<longrightarrow> apply_op dt self OperatingSystemContxt evt = evt"
    using unset(6) by (simp add: applyOperatingSystemContxt_unset)
  have sid: "getSessionId self = Null"
    using unset by (simp add: getSessionId_def)
  have ses: "apply_op dt self SessionContext evt
        = (if is_obj (get_prop evt strExt) \<and> isNullOrUndefined (get_prop (get_prop evt strExt) AppExt)
           then put_prop evt strExt (put_prop (get_prop evt strExt) AppExt (Obj PlainObject []))
           else evt)"
    using applySessionContext_no_id [OF sid] by simp
  show ?thesis
    unfolding self_def [symmetric]
    by (intro conjI) (rule five, rule opsys, rule sid, rule ses)
qed

theorem apply_unset_provider_noop_witness:
  "apply_op example_dataTypes (fst (construct example_providers worker trace_parent_enabled))
     UserContext (Obj PlainObject [(js ''baseType'', Str (js ''PageviewData''))])
     = Obj PlainObject [(js ''baseType'', Str (js ''PageviewData''))]
   \<and> apply_op example_dataTypes (fst (construct example_providers worker trace_parent_enabled))
     OperatingSystemContxt item_with_sdk = item_with_sdk
   \<and> getSessionId (fst (construct example_providers worker trace_parent_enabled)) = Null
   \<and> apply_op example_dataTypes (fst (construct example_providers worker trace_parent_enabled))
     SessionContext (Obj PlainObject [(js ''baseType'', Str (js ''PageviewData''))])
     = Obj PlainObject [(js ''baseType'', Str (js ''PageviewData''))]"
proof -
  have h: "\<not> hasWindow worker" by code_simp
  have o: "get_prop (get_prop item_with_sdk strExt) OSExt = Undefined" by code_simp
  have e: "\<not> is_obj (get_prop (Obj PlainObject [(js ''baseType'', Str (js ''PageviewData''))]) strExt)"
    by code_simp
  show ?thesis
    using apply_unset_provider_noop [OF h, of UserContext example_dataTypes example_providers
        trace_parent_enabled "Obj PlainObject [(js ''baseType'', Str (js ''PageviewData''))]"]
      apply_unset_provider_noop [OF h, of UserContext example_dataTypes example_providers
        trace_parent_enabled item_with_sdk] o e
    by simp
qed

text \<open>
  Claim C7 as stated fails: \<^verbatim>\<open>application\<close> and \<^verbatim>\<open>internal\<close> are built in every
  environment, so their operations create \<^verbatim>\<open>tags\<close> and write into it;
  \<^verbatim>\<open>applySessionContext\<close> creates an empty \<^verbatim>\<open>app\<close> bucket in an \<^verbatim>\<open>ext\<close> that has
  none; and \<^verbatim>\<open>applyOperatingSystemContxt\<close>, which tests its provider nowhere, puts
  \<^verbatim>\<open>undefined\<close> over the \<^verbatim>\<open>os\<close> value an item came with, where
  \<^verbatim>\<open>applyWebContext\<close> on an item that came with a \<^verbatim>\<open>web\<close> value leaves it alone.
\<close>

theorem apply_without_window_writes:
  "\<not> hasWindow worker
   \<and> sessionManager (fst (construct example_providers worker trace_parent_enabled)) = Undefined
   \<and> device (fst (construct example_providers worker trace_parent_enabled)) = Undefined
   \<and> location (fst (construct example_providers worker trace_parent_enabled)) = Undefined
   \<and> user (fst (construct example_providers worker trace_parent_enabled)) = Undefined
   \<and> session (fst (construct example_providers worker trace_parent_enabled)) = Undefined
   \<and> telemetryTrace (fst (construct example_providers worker trace_parent_enabled)) = Undefined
   \<and> apply_op example_dataTypes (fst (construct example_providers worker trace_parent_enabled))
        InternalContext (Obj PlainObject [])
        = Obj PlainObject [(js ''tags'', Obj PlainObject
            [(js ''internalSdkVersion'', Str (js ''javascript:2.8.0''))])]
   \<and> apply_op example_dataTypes (fst (construct example_providers worker trace_parent_enabled))
        ApplicationContext (Obj PlainObject [])
        = Obj PlainObject [(js ''tags'', Obj PlainObject [])]
   \<and> apply_op example_dataTypes (fst (construct example_providers worker trace_parent_enabled))
        SessionContext (Obj PlainObject [(js ''ext'', Obj PlainObject [])])
        = Obj PlainObject [(js ''ext'', Obj PlainObject [(js ''app'', Obj PlainObject [])])]
   \<and> apply_op example_dataTypes (fst (construct example_providers worker trace_parent_enabled))
        OperatingSystemContxt item_with_os
        = Obj PlainObject [(js ''ext'', Obj PlainObject [(js ''os'', Undefined)])]
   \<and> apply_op example_dataTypes (fst (construct example_providers worker trace_parent_enabled))
        WebContext item_with_web = item_with_web"
  by code_simp

end
